theory Spec2Isabelle
  imports Complex_Main
begin

section \<open>JavaScript values, as far as \<^verbatim>\<open>src/index.ts\<close> inspects them\<close>

text \<open>
  The colour mappings handled by \<^verbatim>\<open>ThemeManager\<close> are plain JavaScript objects, and
  \<^verbatim>\<open>parseFromJson\<close> feeds the result of \<^verbatim>\<open>JSON.parse\<close> into the build, so a colour
  set can be any JavaScript value at run time. The code looks at such a value in three
  ways only: its truthiness (\<^verbatim>\<open>!colors\<close>, \<^verbatim>\<open>!colorValue\<close>, \<^verbatim>\<open>!parsed\<close>), its own
  enumerable string keys (\<^verbatim>\<open>Object.keys\<close>) and the property stored under such a key.
  An object is the list of its own enumerable string-keyed properties in the order of
  their creation (the order of an object literal or of a JSON text), with distinct keys.
  Numbers are reals: the code only tests them against zero (\<^verbatim>\<open>NaN\<close> cannot come out of
  \<^verbatim>\<open>JSON.parse\<close>).
\<close>

datatype jsval =
    JUndefined
  | JNull
  | JBool bool
  | JNum real
  | JStr string
  | JArr "jsval list"
  | JObj "(string \<times> jsval) list"

datatype js_error =
    Error string   \<comment> \<open>\<^verbatim>\<open>new Error(message)\<close>, thrown by the strict logger\<close>
  | SyntaxError    \<comment> \<open>thrown by \<^verbatim>\<open>JSON.parse\<close> on malformed text\<close>
  | TypeError      \<comment> \<open>thrown by \<^verbatim>\<open>Object.keys\<close> on \<^verbatim>\<open>undefined\<close> and \<^verbatim>\<open>null\<close>\<close>

fun truthy :: "jsval \<Rightarrow> bool" where
  "truthy JUndefined = False"
| "truthy JNull = False"
| "truthy (JBool b) = b"
| "truthy (JNum x) = (x \<noteq> 0)"
| "truthy (JStr s) = (s \<noteq> [])"
| "truthy (JArr xs) = True"
| "truthy (JObj kvs) = True"

definition digit_char :: "nat \<Rightarrow> char" where
  "digit_char d = char_of (48 + d)"

fun index_string :: "nat \<Rightarrow> string" where
  "index_string n =
     (if n < 10 then [digit_char n] else index_string (n div 10) @ [digit_char (n mod 10)])"

declare index_string.simps [simp del]

text \<open>
  The order in which \<^verbatim>\<open>Object.keys\<close> lists the properties of an object (ECMAScript
  \<^verbatim>\<open>OrdinaryOwnPropertyKeys\<close>): first the keys that are array indices, in ascending
  numeric order, then the other keys in the order of their creation. An array index is
  the decimal numeral, without leading zero, of a number below \<^verbatim>\<open>2^32 - 1\<close>.
\<close>

definition is_digit :: "char \<Rightarrow> bool" where
  "is_digit c \<longleftrightarrow> c \<in> set ''0123456789''"

definition digit_value :: "char \<Rightarrow> nat" where
  "digit_value c = of_char c - 48"

definition array_index_value :: "string \<Rightarrow> nat" where
  "array_index_value s = foldl (\<lambda>n c. 10 * n + digit_value c) 0 s"

definition is_array_index :: "string \<Rightarrow> bool" where
  "is_array_index s \<longleftrightarrow>
     s \<noteq> [] \<and> list_all is_digit s \<and> (s = ''0'' \<or> take 1 s \<noteq> ''0'') \<and>
     array_index_value s < 4294967295"

definition own_property_order :: "(string \<times> 'a) list \<Rightarrow> (string \<times> 'a) list" where
  "own_property_order props =
     sort_key (\<lambda>p. array_index_value (fst p)) (filter (\<lambda>p. is_array_index (fst p)) props)
       @ filter (\<lambda>p. \<not> is_array_index (fst p)) props"

text \<open>
  \<^verbatim>\<open>Object.keys(v)\<close> paired with \<^verbatim>\<open>v[key]\<close> for each key: the loop of
  \<^verbatim>\<open>generateTheme\<close> reads \<^verbatim>\<open>schemaColors[token]\<close> only for tokens that
  \<^verbatim>\<open>Object.keys(schemaColors)\<close> has just listed, so it walks the own entries of the
  value in that order. Arrays and strings list their indices; numbers and booleans have
  no own enumerable property; \<^verbatim>\<open>undefined\<close> and \<^verbatim>\<open>null\<close> make \<^verbatim>\<open>Object.keys\<close> throw.
\<close>

fun Object_entries :: "jsval \<Rightarrow> js_error + (string \<times> jsval) list" where
  "Object_entries (JObj kvs) = Inr (own_property_order kvs)"
| "Object_entries (JArr xs) = Inr (map (\<lambda>i. (index_string i, xs ! i)) [0..<length xs])"
| "Object_entries (JStr s) = Inr (map (\<lambda>i. (index_string i, JStr [s ! i])) [0..<length s])"
| "Object_entries (JNum x) = Inr []"
| "Object_entries (JBool b) = Inr []"
| "Object_entries JUndefined = Inl TypeError"
| "Object_entries JNull = Inl TypeError"

section \<open>String operations of the JavaScript runtime\<close>

text \<open>
  \<^verbatim>\<open>String.prototype.replace\<close> expands replacement patterns in a replacement string
  (ECMAScript \<^verbatim>\<open>GetSubstitution\<close>): \<^verbatim>\<open>$$\<close> stands for a dollar sign, \<^verbatim>\<open>$&\<close> for the
  matched text, \<^verbatim>\<open>$`\<close> for the text before the match and \<^verbatim>\<open>$'\<close> for the text after it.
  The pattern \<^verbatim>\<open>/\./g\<close> has no capture group, so \<^verbatim>\<open>$1\<close> and \<^verbatim>\<open>$<name>\<close> stay as they
  are, as does any other dollar sign.
\<close>

fun GetSubstitution :: "string \<Rightarrow> string \<Rightarrow> string \<Rightarrow> string \<Rightarrow> string" where
  "GetSubstitution matched preceding following [] = []"
| "GetSubstitution matched preceding following [c] = [c]"
| "GetSubstitution matched preceding following (c # d # rest) =
     (if c = CHR ''$'' \<and> d = CHR ''$'' then CHR ''$'' # GetSubstitution matched preceding following rest
      else if c = CHR ''$'' \<and> d = CHR ''&'' then matched @ GetSubstitution matched preceding following rest
      else if c = CHR ''$'' \<and> d = CHR 0x60 then preceding @ GetSubstitution matched preceding following rest
      else if c = CHR ''$'' \<and> d = CHR 0x27 then following @ GetSubstitution matched preceding following rest
      else c # GetSubstitution matched preceding following (d # rest))"

text \<open>
  \<^verbatim>\<open>str.replace(/\./g, replacement)\<close>: every dot of \<^verbatim>\<open>str\<close> is replaced by the
  substitution computed at its position; \<open>preceding\<close> is the part of \<^verbatim>\<open>str\<close> already
  passed.
\<close>

fun replace_dots_from :: "string \<Rightarrow> string \<Rightarrow> string \<Rightarrow> string" where
  "replace_dots_from preceding [] replacement = []"
| "replace_dots_from preceding (c # cs) replacement =
     (if c = CHR ''.'' then GetSubstitution [c] preceding cs replacement else [c])
       @ replace_dots_from (preceding @ [c]) cs replacement"

definition replace_dots :: "string \<Rightarrow> string \<Rightarrow> string" where
  "replace_dots str replacement = replace_dots_from [] str replacement"

text \<open>
  \<^verbatim>\<open>str.replace(pattern, "")\<close> with a string pattern: the first occurrence of the
  pattern is removed, the rest of the string is kept.
\<close>

fun remove_first :: "string \<Rightarrow> string \<Rightarrow> string" where
  "remove_first pattern [] = []"
| "remove_first pattern (c # cs) =
     (if take (length pattern) (c # cs) = pattern then drop (length pattern) (c # cs)
      else c # remove_first pattern cs)"

definition endsWith :: "string \<Rightarrow> string \<Rightarrow> bool" where
  "endsWith str searchString \<longleftrightarrow>
     length searchString \<le> length str \<and>
     drop (length str - length searchString) str = searchString"

section \<open>The logger\<close>

text \<open>
  A logger has the two methods \<^verbatim>\<open>warn\<close> and \<^verbatim>\<open>error\<close>. The logger handed to the
  constructor (\<^verbatim>\<open>consoleLogger\<close> by default) is a sink: a call returns normally and
  the message is recorded; the sink is modelled by the list of the calls it has received.
  \<^verbatim>\<open>createLogger\<close> replaces it, in strict mode, by a logger whose two methods throw.
\<close>

datatype level = Warn | Err

datatype Logger =
    Sink "(level \<times> string) list"
  | Throwing

definition strict_message :: "string \<Rightarrow> string" where
  "strict_message message = ''[Theme-Manager]: '' @ remove_first ''Skipping...'' message"

fun logger_call :: "Logger \<Rightarrow> level \<Rightarrow> string \<Rightarrow> js_error + Logger" where
  "logger_call (Sink calls) lv message = Inr (Sink (calls @ [(lv, message)]))"
| "logger_call Throwing lv message = Inl (Error (strict_message message))"

definition createLogger :: "Logger \<Rightarrow> bool \<Rightarrow> Logger" where
  "createLogger logger strict = (if \<not> strict then logger else Throwing)"

section \<open>The colour library and the theme manager\<close>

text \<open>
  \<^verbatim>\<open>ThemeManager\<close> extends \<^verbatim>\<open>Colorus\<close> of the package \<^verbatim>\<open>colorus-js\<close>, which is not part
  of this repository. Its operations are the fields of a record, and every theorem holds
  for all of them: \<open>dye\<close> is the inherited method \<^verbatim>\<open>this.dye\<close> (\<open>None\<close> when its result
  is falsy), \<open>source_isValid c\<close> is \<^verbatim>\<open>c.source.isValid\<close>, \<open>lighten\<close> and \<open>darken\<close>
  are the two default plugins and \<open>rgb c\<close> is \<^verbatim>\<open>c.rgb\<close>. The type \<open>'c\<close> is that of
  the colour instances, \<open>'v\<close> that of the serialised values. The functions of the
  library and those handed in by the caller (the serializer, the variant transforms, the
  sink behind the logger) are functions of HOL: they return on every argument and do not
  throw.
\<close>

record ('c, 'v) Colorus =
  dye :: "jsval \<Rightarrow> 'c option"
  source_isValid :: "'c \<Rightarrow> bool"
  lighten :: "'c \<Rightarrow> real \<Rightarrow> 'c"
  darken :: "'c \<Rightarrow> real \<Rightarrow> 'c"
  rgb :: "'c \<Rightarrow> 'v"

type_synonym 'c VariantFn = "'c \<Rightarrow> string \<Rightarrow> 'c"

type_synonym 'v schema = "string \<rightharpoonup> 'v"

record ('c, 'v) ThemeManager = "('c, 'v) Colorus" +
  tokens :: "string set"
  colors :: "(string \<times> jsval) list"
  variants :: "(string \<times> 'c VariantFn) list"
  colorSerializer :: "'c \<Rightarrow> string \<Rightarrow> 'v"
  colorScope :: "string list"
  prefix :: string
  divider :: string
  logger :: Logger
  baseColorSchema :: "'v schema option"

definition defaultVariants :: "('c, 'v) Colorus \<Rightarrow> (string \<times> 'c VariantFn) list" where
  "defaultVariants lib =
     [(''lighter'', \<lambda>c _. lighten lib c 0.12), (''darker'', \<lambda>c _. darken lib c 0.12)]"

definition defaultColorSerializer :: "('c, 'v) Colorus \<Rightarrow> 'c \<Rightarrow> string \<Rightarrow> 'v" where
  "defaultColorSerializer lib = (\<lambda>c _. rgb lib c)"

text \<open>
  The options of the constructor. An absent option is \<open>None\<close>; \<^verbatim>\<open>output\<close> is flattened
  into its three parts. The option \<^verbatim>\<open>plugins\<close> only extends the colour library and is
  part of \<open>lib\<close>.
\<close>

record ('c, 'v) Options =
  opt_logger :: "Logger option"
  opt_strict :: "bool option"
  opt_scope :: "string list option"
  opt_variants :: "(string \<times> 'c VariantFn) list option"
  opt_colors :: "(string \<times> jsval) list"
  opt_prefix :: "string option"
  opt_divider :: "string option"
  opt_serializer :: "('c \<Rightarrow> string \<Rightarrow> 'v) option"

text \<open>\<^verbatim>\<open>x || d\<close> for an optional string: the default also replaces the empty string.\<close>

definition or_string :: "string option \<Rightarrow> string \<Rightarrow> string" where
  "or_string x d = (case x of None \<Rightarrow> d | Some s \<Rightarrow> if s = [] then d else s)"

definition new_ThemeManager :: "('c, 'v) Colorus \<Rightarrow> ('c, 'v) Options \<Rightarrow> ('c, 'v) ThemeManager" where
  "new_ThemeManager lib options =
     \<lparr> dye = dye lib, source_isValid = source_isValid lib, lighten = lighten lib,
       darken = darken lib, rgb = rgb lib,
       tokens = set (map fst (opt_colors options)),
       colors = opt_colors options,
       variants = (case opt_variants options of None \<Rightarrow> defaultVariants lib | Some vs \<Rightarrow> vs),
       colorSerializer =
         (case opt_serializer options of None \<Rightarrow> defaultColorSerializer lib | Some f \<Rightarrow> f),
       colorScope =
         (case opt_scope options of
            None \<Rightarrow> [''bg'', ''fg'', ''foreground'', ''background'']
          | Some sc \<Rightarrow> sc),
       prefix = or_string (opt_prefix options) [],
       divider = or_string (opt_divider options) ''.'',
       logger =
         createLogger (case opt_logger options of None \<Rightarrow> Sink [] | Some lg \<Rightarrow> lg)
           (case opt_strict options of None \<Rightarrow> False | Some b \<Rightarrow> b),
       baseColorSchema = None \<rparr>"

section \<open>Building the schema\<close>

text \<open>
  The key of a token, \<^verbatim>\<open>`${this.prefix}${token.replace(/\./g, this.divider)}`\<close>, and the
  key of one of its variants, which appends \<^verbatim>\<open>`${this.divider}${variantKey}`\<close> to it.
\<close>

definition formatToken :: "('c, 'v) ThemeManager \<Rightarrow> string \<Rightarrow> string" where
  "formatToken this token = prefix this @ replace_dots token (divider this)"

definition formatVariantKey :: "('c, 'v) ThemeManager \<Rightarrow> string \<Rightarrow> string \<Rightarrow> string" where
  "formatVariantKey this token variantKey =
     prefix this @ replace_dots token (divider this) @ divider this @ variantKey"

definition invalid_variant_message :: "string \<Rightarrow> string \<Rightarrow> string" where
  "invalid_variant_message variantKey token =
     ''Variant '' @ variantKey @ '' for token '' @ token @ '' produced invalid color. Skipping...''"

text \<open>
  \<^verbatim>\<open>schema[key] = value\<close> on the plain object \<^verbatim>\<open>schema\<close>, which starts as \<^verbatim>\<open>{}\<close>. A schema
  is the map of the own properties of the object. The key \<^verbatim>\<open>__proto__\<close> reaches the
  setter of \<^verbatim>\<open>Object.prototype\<close>, which creates no own property (it replaces the
  prototype when the value is an object; the prototype is not part of the model).
\<close>

definition set_property :: "'v schema \<Rightarrow> string \<Rightarrow> 'v \<Rightarrow> 'v schema" where
  "set_property schema key val = (if key = ''__proto__'' then schema else schema(key \<mapsto> val))"

text \<open>
  \<^verbatim>\<open>appendVariants\<close>: the loop over \<^verbatim>\<open>Object.keys(variants)\<close>, reading
  \<^verbatim>\<open>variants[variantKey]\<close> for each key, walks the entries of the variants object in the
  order of \<^verbatim>\<open>Object.keys\<close>. The schema under construction and the logger are threaded
  through; a throwing logger ends the loop with the error.
\<close>

fun appendVariants_loop ::
  "('c, 'v) ThemeManager \<Rightarrow> string \<Rightarrow> 'c \<Rightarrow> (string \<times> 'c VariantFn) list \<Rightarrow>
   ('c \<Rightarrow> string \<Rightarrow> 'v) \<Rightarrow> 'v schema \<times> Logger \<Rightarrow> js_error + ('v schema \<times> Logger)" where
  "appendVariants_loop this token baseColor [] ColorSerializer (schema, lg) = Inr (schema, lg)"
| "appendVariants_loop this token baseColor ((variantKey, transformer) # rest) ColorSerializer (schema, lg) =
     (let variantColor = transformer baseColor variantKey in
      if \<not> source_isValid this variantColor then
        (case logger_call lg Warn (invalid_variant_message variantKey token) of
           Inl e \<Rightarrow> Inl e
         | Inr lg' \<Rightarrow> appendVariants_loop this token baseColor rest ColorSerializer (schema, lg'))
      else
        appendVariants_loop this token baseColor rest ColorSerializer
          (set_property schema (formatVariantKey this token variantKey)
             (ColorSerializer variantColor variantKey), lg))"

definition appendVariants ::
  "('c, 'v) ThemeManager \<Rightarrow> string \<Rightarrow> 'c \<Rightarrow> (string \<times> 'c VariantFn) list \<Rightarrow>
   ('c \<Rightarrow> string \<Rightarrow> 'v) \<Rightarrow> 'v schema \<times> Logger \<Rightarrow> js_error + ('v schema \<times> Logger)" where
  "appendVariants this token baseColor variantsArg ColorSerializer st =
     appendVariants_loop this token baseColor (own_property_order variantsArg) ColorSerializer st"

definition isColorScopedToken :: "('c, 'v) ThemeManager \<Rightarrow> string \<Rightarrow> bool" where
  "isColorScopedToken this token =
     list_ex (\<lambda>scope. endsWith token (''.'' @ scope)) (colorScope this)"

text \<open>One iteration of the loop of \<^verbatim>\<open>generateTheme\<close> over the colour keys.\<close>

definition process_token ::
  "('c, 'v) ThemeManager \<Rightarrow> string \<times> jsval \<Rightarrow> 'v schema \<times> Logger \<Rightarrow>
   js_error + ('v schema \<times> Logger)" where
  "process_token this entry st =
     (case (entry, st) of ((token, colorValue), (schema, lg)) \<Rightarrow>
        if token \<notin> tokens this then
          (case logger_call lg Warn (''Token '' @ token @ '' is not in the registry. Skipping...'') of
             Inl e \<Rightarrow> Inl e
           | Inr lg' \<Rightarrow> Inr (schema, lg'))
        else if \<not> truthy colorValue then
          (case logger_call lg Warn (''Token '' @ token @ '' has no color. Skipping...'') of
             Inl e \<Rightarrow> Inl e
           | Inr lg' \<Rightarrow> Inr (schema, lg'))
        else
          (case dye this colorValue of
             None \<Rightarrow> Inr (schema, lg)
           | Some processedColor \<Rightarrow>
               let schema' = set_property schema (formatToken this token)
                               (colorSerializer this processedColor token) in
               if isColorScopedToken this token then
                 appendVariants this token processedColor (variants this) (colorSerializer this)
                   (schema', lg)
               else Inr (schema', lg)))"

fun process_tokens ::
  "('c, 'v) ThemeManager \<Rightarrow> (string \<times> jsval) list \<Rightarrow> 'v schema \<times> Logger \<Rightarrow>
   js_error + ('v schema \<times> Logger)" where
  "process_tokens this [] st = Inr st"
| "process_tokens this (entry # rest) st =
     (case process_token this entry st of
        Inl e \<Rightarrow> Inl e
      | Inr st' \<Rightarrow> process_tokens this rest st')"

text \<open>\<^verbatim>\<open>colors || this.colors\<close>: the colour set a build walks.\<close>

definition schemaColors :: "('c, 'v) ThemeManager \<Rightarrow> jsval \<Rightarrow> jsval" where
  "schemaColors this colorsArg = (if truthy colorsArg then colorsArg else JObj (colors this))"

text \<open>
  \<^verbatim>\<open>generateTheme(colors?)\<close>. A call without argument passes \<open>JUndefined\<close>. The result
  pairs what the call returns or throws with the instance after the call; the instance
  is written only on the last lines of the method, so a throw leaves it as it was.
  \<open>build_theme\<close> is the body of the method after the early return of the cached schema.
  A schema is a value here: the method returns the cached object itself, not a copy, and
  a caller who writes into the object it was handed is outside the model.
\<close>

definition build_theme ::
  "('c, 'v) ThemeManager \<Rightarrow> jsval \<Rightarrow> (js_error + 'v schema) \<times> ('c, 'v) ThemeManager" where
  "build_theme this colorsArg =
     (case Object_entries (schemaColors this colorsArg) of
        Inl e \<Rightarrow> (Inl e, this)
      | Inr entries \<Rightarrow>
        (case process_tokens this entries (Map.empty, logger this) of
           Inl e \<Rightarrow> (Inl e, this)
         | Inr (schema, lg) \<Rightarrow>
             let merged = (case baseColorSchema this of
                             None \<Rightarrow> schema
                           | Some cached \<Rightarrow> cached ++ schema);
                 this' = this\<lparr>logger := lg\<rparr>
             in if \<not> truthy colorsArg \<and> baseColorSchema this = None
                then (Inr merged, this'\<lparr>baseColorSchema := Some merged\<rparr>)
                else (Inr merged, this')))"

definition generateTheme ::
  "('c, 'v) ThemeManager \<Rightarrow> jsval \<Rightarrow> (js_error + 'v schema) \<times> ('c, 'v) ThemeManager" where
  "generateTheme this colorsArg =
     (case baseColorSchema this of
        Some cached \<Rightarrow>
          if \<not> truthy colorsArg then (Inr cached, this) else build_theme this colorsArg
      | None \<Rightarrow> build_theme this colorsArg)"

text \<open>
  \<^verbatim>\<open>parseFromJson(json)\<close>. \<^verbatim>\<open>JSON.parse\<close> belongs to the runtime and is a parameter:
  \<open>JSON_parse text = None\<close> when \<^verbatim>\<open>JSON.parse(text)\<close> throws its \<^verbatim>\<open>SyntaxError\<close>,
  \<open>Some v\<close> when it returns \<open>v\<close>. The method has no handler around the call.
\<close>

definition no_base_warning :: string where
  "no_base_warning =
     ''No base color schema provided. Some colors may not be validated correctly. Consider using a base color schema.''"

definition parseFromJson ::
  "(string \<Rightarrow> jsval option) \<Rightarrow> ('c, 'v) ThemeManager \<Rightarrow> string \<Rightarrow>
   (js_error + 'v schema) \<times> ('c, 'v) ThemeManager" where
  "parseFromJson JSON_parse this json =
     (case JSON_parse json of
        None \<Rightarrow> (Inl SyntaxError, this)
      | Some parsed \<Rightarrow>
          if \<not> truthy parsed then
            (case logger_call (logger this) Err ''Invalid JSON format. Unable to parse theme.'' of
               Inl e \<Rightarrow> (Inl e, this)
             | Inr lg \<Rightarrow> (Inr Map.empty, this\<lparr>logger := lg\<rparr>))
          else
            (case (if baseColorSchema this = None
                   then logger_call (logger this) Warn no_base_warning
                   else Inr (logger this)) of
               Inl e \<Rightarrow> (Inl e, this)
             | Inr lg \<Rightarrow> generateTheme (this\<lparr>logger := lg\<rparr>) parsed))"

section \<open>The instances of a construction\<close>

text \<open>
  \<open>instance_of lib options this\<close>: \<open>this\<close> is an instance that
  \<^verbatim>\<open>new ThemeManager(options)\<close> has constructed, at some later moment of its life: after
  any number of calls of its two methods, and after any change that the holder of the
  colours, of the variants or of the scope handed to the constructor has made to these
  objects, which \<^verbatim>\<open>this.colors\<close>, \<^verbatim>\<open>this.variants\<close> and \<^verbatim>\<open>this.colorScope\<close> alias. The
  registry \<^verbatim>\<open>this.tokens\<close> is a set of the instance's own, filled by the constructor.
\<close>

inductive instance_of ::
  "('c, 'v) Colorus \<Rightarrow> ('c, 'v) Options \<Rightarrow> ('c, 'v) ThemeManager \<Rightarrow> bool"
  for lib :: "('c, 'v) Colorus" and options :: "('c, 'v) Options" where
  constructed: "instance_of lib options (new_ThemeManager lib options)"
| generated:
    "instance_of lib options this \<Longrightarrow> instance_of lib options (snd (generateTheme this colorsArg))"
| parsed:
    "instance_of lib options this \<Longrightarrow>
     instance_of lib options (snd (parseFromJson JSON_parse this json))"
| colors_mutated:
    "instance_of lib options this \<Longrightarrow> instance_of lib options (this\<lparr>colors := cs\<rparr>)"
| variants_mutated:
    "instance_of lib options this \<Longrightarrow> instance_of lib options (this\<lparr>variants := vs\<rparr>)"
| scope_mutated:
    "instance_of lib options this \<Longrightarrow> instance_of lib options (this\<lparr>colorScope := sc\<rparr>)"

section \<open>What a build emits\<close>

text \<open>
  The following functions state, without the loops and without the logger, what a build
  writes and what it reports; the theorems below compare the loops above with them.
  \<open>assign schema entries\<close> performs the assignments \<^verbatim>\<open>schema[key] = value\<close> in the
  order of the list, so a later entry for a key replaces an earlier one. The variants are
  taken in the order of \<^verbatim>\<open>Object.keys(variants)\<close>.
\<close>

fun assign :: "'v schema \<Rightarrow> (string \<times> 'v) list \<Rightarrow> 'v schema" where
  "assign schema [] = schema"
| "assign schema ((key, val) # rest) = assign (set_property schema key val) rest"

definition variant_entries :: "('c, 'v) ThemeManager \<Rightarrow> string \<Rightarrow> 'c \<Rightarrow> (string \<times> 'v) list" where
  "variant_entries this token c =
     map (\<lambda>(variantKey, transformer).
            (formatVariantKey this token variantKey,
             colorSerializer this (transformer c variantKey) variantKey))
       (filter (\<lambda>(variantKey, transformer). source_isValid this (transformer c variantKey))
          (own_property_order (variants this)))"

definition variant_warnings :: "('c, 'v) ThemeManager \<Rightarrow> string \<Rightarrow> 'c \<Rightarrow> (level \<times> string) list" where
  "variant_warnings this token c =
     map (\<lambda>(variantKey, transformer). (Warn, invalid_variant_message variantKey token))
       (filter (\<lambda>(variantKey, transformer). \<not> source_isValid this (transformer c variantKey))
          (own_property_order (variants this)))"

definition token_entries :: "('c, 'v) ThemeManager \<Rightarrow> string \<times> jsval \<Rightarrow> (string \<times> 'v) list" where
  "token_entries this entry =
     (case entry of (token, colorValue) \<Rightarrow>
        if token \<in> tokens this \<and> truthy colorValue then
          (case dye this colorValue of
             None \<Rightarrow> []
           | Some c \<Rightarrow>
               (formatToken this token, colorSerializer this c token)
                 # (if isColorScopedToken this token then variant_entries this token c else []))
        else [])"

definition token_warnings :: "('c, 'v) ThemeManager \<Rightarrow> string \<times> jsval \<Rightarrow> (level \<times> string) list" where
  "token_warnings this entry =
     (case entry of (token, colorValue) \<Rightarrow>
        if token \<notin> tokens this then
          [(Warn, ''Token '' @ token @ '' is not in the registry. Skipping...'')]
        else if \<not> truthy colorValue then
          [(Warn, ''Token '' @ token @ '' has no color. Skipping...'')]
        else
          (case dye this colorValue of
             None \<Rightarrow> []
           | Some c \<Rightarrow> if isColorScopedToken this token then variant_warnings this token c else []))"

definition schema_entries :: "('c, 'v) ThemeManager \<Rightarrow> (string \<times> jsval) list \<Rightarrow> (string \<times> 'v) list" where
  "schema_entries this entries = concat (map (token_entries this) entries)"

definition build_warnings :: "('c, 'v) ThemeManager \<Rightarrow> (string \<times> jsval) list \<Rightarrow> (level \<times> string) list" where
  "build_warnings this entries = concat (map (token_warnings this) entries)"

text \<open>
  The logger after the calls \<open>ws\<close>: a sink has recorded them all, the throwing logger
  has thrown at the first one.
\<close>

fun log_all :: "Logger \<Rightarrow> (level \<times> string) list \<Rightarrow> js_error + Logger" where
  "log_all lg [] = Inr lg"
| "log_all (Sink calls) ws = Inr (Sink (calls @ ws))"
| "log_all Throwing (w # ws) = Inl (Error (strict_message (snd w)))"

text \<open>
  The keys a token can give rise to: its formatted base key and one key per configured
  variant.
\<close>

definition derived_keys :: "('c, 'v) ThemeManager \<Rightarrow> string list \<Rightarrow> string set" where
  "derived_keys this toks =
     (\<Union>token \<in> set toks.
        insert (formatToken this token)
          ((\<lambda>variantKey. formatVariantKey this token variantKey) ` fst ` set (variants this)))"

text \<open>\<^verbatim>\<open>{ ...this.baseColorSchema, ...schema }\<close> when a cached schema exists.\<close>

definition overlay :: "'v schema option \<Rightarrow> 'v schema \<Rightarrow> 'v schema" where
  "overlay base schema = (case base of None \<Rightarrow> schema | Some cached \<Rightarrow> cached ++ schema)"

section \<open>Example instances\<close>

text \<open>
  A small colour library on which the examples run; the theorems hold for every
  library. A colour instance is the text it was made from, paired with its validity:
  a text starting with \<^verbatim>\<open>#\<close> is a valid colour. \<open>lighten\<close> and \<open>darken\<close> mark the text
  and keep the validity; \<open>rgb\<close> returns the text.
\<close>

definition sample_lib :: "(bool \<times> string, string) Colorus" where
  "sample_lib =
     \<lparr> dye = (\<lambda>v. case v of JStr s \<Rightarrow> Some (take 1 s = ''#'', s) | _ \<Rightarrow> Some (False, [])),
       source_isValid = fst,
       lighten = (\<lambda>c amount. (fst c, snd c @ ''+'')),
       darken = (\<lambda>c amount. (fst c, snd c @ ''-'')),
       rgb = snd \<rparr>"

text \<open>
  The options of the end-to-end example of the specification: two colours, the scope
  \<^verbatim>\<open>["bg", "fg"]\<close>, the default variants, prefix \<^verbatim>\<open>--\<close> and divider \<^verbatim>\<open>-\<close>.
\<close>

definition example_options :: "(bool \<times> string, string) Options" where
  "example_options =
     \<lparr> opt_logger = None, opt_strict = None, opt_scope = Some [''bg'', ''fg''],
       opt_variants = None,
       opt_colors = [(''button.bg'', JStr ''#3366ff''), (''text.fg'', JStr ''#333333'')],
       opt_prefix = Some ''--'', opt_divider = Some ''-'', opt_serializer = None \<rparr>"

definition example_theme :: "(bool \<times> string, string) ThemeManager" where
  "example_theme = new_ThemeManager sample_lib example_options"

definition example_schema :: "string schema" where
  "example_schema =
     [''--button-bg'' \<mapsto> ''#3366ff'', ''--button-bg-lighter'' \<mapsto> ''#3366ff+'',
      ''--button-bg-darker'' \<mapsto> ''#3366ff-'', ''--text-fg'' \<mapsto> ''#333333'',
      ''--text-fg-lighter'' \<mapsto> ''#333333+'', ''--text-fg-darker'' \<mapsto> ''#333333-'']"

definition example_cached :: "(bool \<times> string, string) ThemeManager" where
  "example_cached = snd (generateTheme example_theme JUndefined)"

definition example_override :: "(string \<times> jsval) list" where
  "example_override = [(''button.bg'', JStr ''#000000'')]"

definition example_override_schema :: "string schema" where
  "example_override_schema =
     [''--button-bg'' \<mapsto> ''#000000'', ''--button-bg-lighter'' \<mapsto> ''#000000+'',
      ''--button-bg-darker'' \<mapsto> ''#000000-'']"

text \<open>The override of the test suite that names a token outside the registry.\<close>

definition example_bad_override :: "(string \<times> jsval) list" where
  "example_bad_override = [(''invalid.token'', JStr ''#123123'')]"

text \<open>An override that names one token outside the registry and one inside.\<close>

definition example_mixed_override :: "(string \<times> jsval) list" where
  "example_mixed_override = [(''invalid.token'', JStr ''#123123''), (''button.bg'', JStr ''#000000'')]"

text \<open>
  The colours of the test suite (\<^verbatim>\<open>baseColors\<close>, with the unscoped token
  \<^verbatim>\<open>button.shadow\<close>), built with the default scope and variants, prefix \<^verbatim>\<open>--\<close> and
  divider \<^verbatim>\<open>-\<close>.
\<close>

definition suite_options :: "(bool \<times> string, string) Options" where
  "suite_options =
     \<lparr> opt_logger = None, opt_strict = Some True, opt_scope = None, opt_variants = None,
       opt_colors = [(''button.bg'', JStr ''#3366ff''), (''button.shadow'', JStr ''#99aabb''),
                     (''text.fg'', JStr ''#333333'')],
       opt_prefix = Some ''--'', opt_divider = Some ''-'', opt_serializer = None \<rparr>"

definition suite_theme :: "(bool \<times> string, string) ThemeManager" where
  "suite_theme = new_ThemeManager sample_lib suite_options"

definition suite_schema :: "string schema" where
  "suite_schema =
     [''--button-bg'' \<mapsto> ''#3366ff'', ''--button-bg-lighter'' \<mapsto> ''#3366ff+'',
      ''--button-bg-darker'' \<mapsto> ''#3366ff-'', ''--button-shadow'' \<mapsto> ''#99aabb'',
      ''--text-fg'' \<mapsto> ''#333333'', ''--text-fg-lighter'' \<mapsto> ''#333333+'',
      ''--text-fg-darker'' \<mapsto> ''#333333-'']"

text \<open>
  An instance whose divider is the two characters \<^verbatim>\<open>$$\<close>, which
  \<^verbatim>\<open>String.prototype.replace\<close> reads as the pattern for one dollar sign.
\<close>

definition dollar_options :: "(bool \<times> string, string) Options" where
  "dollar_options =
     \<lparr> opt_logger = None, opt_strict = None, opt_scope = None, opt_variants = None,
       opt_colors = [(''accent.fg'', JStr ''#FF5733'')],
       opt_prefix = Some ''--'', opt_divider = Some ''$$'', opt_serializer = None \<rparr>"

definition dollar_theme :: "(bool \<times> string, string) ThemeManager" where
  "dollar_theme = new_ThemeManager sample_lib dollar_options"

text \<open>
  The values of \<^verbatim>\<open>JSON.parse\<close> on the three texts used in the examples: the text
  \<^verbatim>\<open>null\<close>, the text of the test suite, and the malformed text \<^verbatim>\<open>{\<close>, on which
  \<^verbatim>\<open>JSON.parse\<close> throws. The examples use no other text.
\<close>

definition example_json :: string where
  \<open>example_json = ''{"button.bg":"#abcdef"}''\<close>

definition sample_JSON_parse :: "string \<Rightarrow> jsval option" where
  "sample_JSON_parse text =
     (if text = ''null'' then Some JNull
      else if text = example_json then Some (JObj [(''button.bg'', JStr ''#abcdef'')])
      else None)"

text \<open>The example instance, constructed with \<^verbatim>\<open>strict: true\<close>.\<close>

definition strict_options :: "(bool \<times> string, string) Options" where
  "strict_options = example_options\<lparr>opt_strict := Some True\<rparr>"

definition strict_theme :: "(bool \<times> string, string) ThemeManager" where
  "strict_theme = new_ThemeManager sample_lib strict_options"

text \<open>
  An instance whose registry holds the token \<^verbatim>\<open>a.bg\<close> and the token \<^verbatim>\<open>a.bg.lighter\<close>,
  with the default prefix, divider, scope and variants: the key of the variant
  \<^verbatim>\<open>lighter\<close> of the first token is the base key of the second.
\<close>

definition collision_options :: "(bool \<times> string, string) Options" where
  "collision_options =
     \<lparr> opt_logger = None, opt_strict = None, opt_scope = None, opt_variants = None,
       opt_colors = [(''a.bg'', JStr ''#111111''), (''a.bg.lighter'', JStr ''#222222'')],
       opt_prefix = None, opt_divider = None, opt_serializer = None \<rparr>"

definition collision_theme :: "(bool \<times> string, string) ThemeManager" where
  "collision_theme = new_ThemeManager sample_lib collision_options"

definition collision_cached :: "(bool \<times> string, string) ThemeManager" where
  "collision_cached = snd (generateTheme collision_theme JUndefined)"

definition collision_override :: "(string \<times> jsval) list" where
  "collision_override = [(''a.bg'', JStr ''#333333'')]"

text \<open>
  An instance whose variants object was written as \<^verbatim>\<open>{ "900": ..., "100": ... }\<close>, the
  variant \<^verbatim>\<open>900\<close> first. Both transforms give an invalid colour, so the logger shows
  the order in which the variants are taken.
\<close>

definition numbered_options :: "(bool \<times> string, string) Options" where
  "numbered_options =
     \<lparr> opt_logger = None, opt_strict = None, opt_scope = None,
       opt_variants = Some [(''900'', \<lambda>c _. (False, snd c)), (''100'', \<lambda>c _. (False, snd c))],
       opt_colors = [(''button.bg'', JStr ''#3366ff'')],
       opt_prefix = Some ''--'', opt_divider = Some ''-'', opt_serializer = None \<rparr>"

definition numbered_theme :: "(bool \<times> string, string) ThemeManager" where
  "numbered_theme = new_ThemeManager sample_lib numbered_options"

definition numbered_strict_theme :: "(bool \<times> string, string) ThemeManager" where
  "numbered_strict_theme = new_ThemeManager sample_lib (numbered_options\<lparr>opt_strict := Some True\<rparr>)"

section \<open>The loops compute what a build emits\<close>

lemma set_own_property_order [simp]: "set (own_property_order props) = set props"
  by (auto simp: own_property_order_def)

lemma filter_own_property_order:
  "filter keep (own_property_order props) = own_property_order (filter keep props)"
  by (simp add: own_property_order_def filter_sort[symmetric] conj_commute)

lemma log_all_append:
  "log_all lg (ws @ ws') = (case log_all lg ws of Inl e \<Rightarrow> Inl e | Inr lg' \<Rightarrow> log_all lg' ws')"
  by (cases lg; cases ws; cases ws') auto

lemma logger_call_log_all: "logger_call lg lv m = log_all lg [(lv, m)]"
  by (cases lg) auto

lemma log_all_Sink: "log_all (Sink calls) ws = Inr (Sink (calls @ ws))"
  by (cases ws) simp_all

lemma log_all_Throwing:
  "log_all Throwing ws = (if ws = [] then Inr Throwing else Inl (Error (strict_message (snd (hd ws)))))"
  by (cases ws) simp_all

lemma assign_append: "assign schema (es @ es') = assign (assign schema es) es'"
  by (induction es arbitrary: schema) auto

lemma appendVariants_loop_refine:
  "appendVariants_loop this token c vs ser (schema, lg) =
     (case log_all lg (map (\<lambda>(k, f). (Warn, invalid_variant_message k token))
                        (filter (\<lambda>(k, f). \<not> source_isValid this (f c k)) vs)) of
        Inl e \<Rightarrow> Inl e
      | Inr lg' \<Rightarrow>
          Inr (assign schema (map (\<lambda>(k, f). (formatVariantKey this token k, ser (f c k) k))
                               (filter (\<lambda>(k, f). source_isValid this (f c k)) vs)), lg'))"
proof (induction vs arbitrary: schema lg)
  case Nil
  then show ?case by simp
next
  case (Cons v vs)
  obtain k f where v: "v = (k, f)" by (cases v)
  show ?case
  proof (cases "source_isValid this (f c k)")
    case True
    then show ?thesis unfolding v by (simp add: Cons.IH split: sum.splits)
  next
    case False
    then show ?thesis unfolding v
      by (cases lg; cases "filter (\<lambda>(k, f). \<not> source_isValid this (f c k)) vs")
         (simp_all add: Cons.IH split: sum.splits)
  qed
qed

lemma appendVariants_refine:
  "appendVariants this token c vs ser (schema, lg) =
     (case log_all lg (map (\<lambda>(k, f). (Warn, invalid_variant_message k token))
                        (filter (\<lambda>(k, f). \<not> source_isValid this (f c k))
                           (own_property_order vs))) of
        Inl e \<Rightarrow> Inl e
      | Inr lg' \<Rightarrow>
          Inr (assign schema (map (\<lambda>(k, f). (formatVariantKey this token k, ser (f c k) k))
                               (filter (\<lambda>(k, f). source_isValid this (f c k))
                                  (own_property_order vs))), lg'))"
  by (simp add: appendVariants_def appendVariants_loop_refine)

lemma process_token_refine:
  "process_token this entry (schema, lg) =
     (case log_all lg (token_warnings this entry) of
        Inl e \<Rightarrow> Inl e
      | Inr lg' \<Rightarrow> Inr (assign schema (token_entries this entry), lg'))"
  by (cases entry)
     (auto simp: process_token_def token_warnings_def token_entries_def logger_call_log_all
        appendVariants_refine variant_entries_def variant_warnings_def Let_def
        split: option.splits sum.splits)

lemma process_tokens_refine:
  "process_tokens this entries (schema, lg) =
     (case log_all lg (build_warnings this entries) of
        Inl e \<Rightarrow> Inl e
      | Inr lg' \<Rightarrow> Inr (assign schema (schema_entries this entries), lg'))"
proof (induction entries arbitrary: schema lg)
  case Nil
  then show ?case by (simp add: build_warnings_def schema_entries_def)
next
  case (Cons entry entries)
  show ?case
    by (simp add: process_token_refine build_warnings_def schema_entries_def log_all_append
        assign_append Cons[unfolded build_warnings_def schema_entries_def] split: sum.splits)
qed

lemma Object_entries_schemaColors:
  "\<exists>entries. Object_entries (schemaColors this colorsArg) = Inr entries"
  by (cases colorsArg) (auto simp: schemaColors_def)

lemma build_theme_refine:
  assumes "Object_entries (schemaColors this colorsArg) = Inr entries"
  shows "build_theme this colorsArg =
     (case log_all (logger this) (build_warnings this entries) of
        Inl e \<Rightarrow> (Inl e, this)
      | Inr lg \<Rightarrow>
          (Inr (overlay (baseColorSchema this) (assign Map.empty (schema_entries this entries))),
           if \<not> truthy colorsArg \<and> baseColorSchema this = None
           then this\<lparr>logger := lg,
                     baseColorSchema :=
                       Some (overlay (baseColorSchema this) (assign Map.empty (schema_entries this entries)))\<rparr>
           else this\<lparr>logger := lg\<rparr>))"
proof (cases "log_all (logger this) (build_warnings this entries)")
  case (Inl e)
  have "process_tokens this entries (Map.empty, logger this) = Inl e"
    by (simp add: process_tokens_refine Inl)
  then show ?thesis by (simp add: build_theme_def assms Inl)
next
  case (Inr lg)
  have "process_tokens this entries (Map.empty, logger this) =
        Inr (assign Map.empty (schema_entries this entries), lg)"
    by (simp add: process_tokens_refine Inr)
  then show ?thesis
    by (simp add: build_theme_def assms Inr overlay_def Let_def)
qed

lemma generateTheme_build:
  "truthy colorsArg \<or> baseColorSchema this = None \<Longrightarrow>
   generateTheme this colorsArg = build_theme this colorsArg"
  by (cases "baseColorSchema this") (auto simp: generateTheme_def)

lemma generateTheme_override:
  "generateTheme this (JObj overrides) = build_theme this (JObj overrides)"
  by (simp add: generateTheme_def split: option.splits)

lemma build_theme_override:
  "build_theme this (JObj overrides) =
     (case log_all (logger this) (build_warnings this (own_property_order overrides)) of
        Inl e \<Rightarrow> (Inl e, this)
      | Inr lg \<Rightarrow>
          (Inr (overlay (baseColorSchema this)
                  (assign Map.empty (schema_entries this (own_property_order overrides)))),
           this\<lparr>logger := lg\<rparr>))"
  by (simp add: build_theme_refine[of this "JObj overrides" "own_property_order overrides"]
      schemaColors_def split: sum.splits)

lemma build_theme_override_cases:
  obtains (thrown) e where "build_theme this (JObj overrides) = (Inl e, this)"
  | (returned) lg where
      "log_all (logger this) (build_warnings this (own_property_order overrides)) = Inr lg"
      "build_theme this (JObj overrides) =
         (Inr (overlay (baseColorSchema this)
                 (assign Map.empty (schema_entries this (own_property_order overrides)))),
          this\<lparr>logger := lg\<rparr>)"
proof (cases "log_all (logger this) (build_warnings this (own_property_order overrides))")
  case (Inl e)
  have "build_theme this (JObj overrides) = (Inl e, this)"
    by (simp add: build_theme_override Inl)
  then show ?thesis by (rule thrown)
next
  case (Inr lg)
  have "build_theme this (JObj overrides) =
         (Inr (overlay (baseColorSchema this)
                 (assign Map.empty (schema_entries this (own_property_order overrides)))),
          this\<lparr>logger := lg\<rparr>)"
    by (simp add: build_theme_override Inr)
  with Inr show ?thesis by (rule returned)
qed

lemma generateTheme_Sink_returns:
  assumes "logger this = Sink calls"
  shows "\<exists>result this'. generateTheme this colorsArg = (Inr result, this')"
proof -
  obtain entries where es: "Object_entries (schemaColors this colorsArg) = Inr entries"
    using Object_entries_schemaColors by blast
  have "\<exists>result this'. build_theme this colorsArg = (Inr result, this')"
    by (simp add: build_theme_refine[OF es] assms log_all_Sink)
  then show ?thesis by (auto simp: generateTheme_def split: option.splits)
qed

lemma generateTheme_thrown_unchanged:
  assumes "fst (generateTheme this colorsArg) = Inl e"
  shows "snd (generateTheme this colorsArg) = this"
proof -
  obtain entries where es: "Object_entries (schemaColors this colorsArg) = Inr entries"
    using Object_entries_schemaColors by blast
  have b: "fst (build_theme this colorsArg) = Inl e \<Longrightarrow> snd (build_theme this colorsArg) = this"
    by (cases "log_all (logger this) (build_warnings this entries)")
       (simp_all add: build_theme_refine[OF es])
  show ?thesis
  proof (cases "baseColorSchema this")
    case None
    then show ?thesis using assms b by (simp add: generateTheme_def)
  next
    case (Some cached)
    then show ?thesis using assms b by (cases "truthy colorsArg") (simp_all add: generateTheme_def)
  qed
qed

section \<open>The keys of a build\<close>

lemma dom_set_property:
  "dom (set_property schema key val) = dom schema \<union> ({key} - {''__proto__''})"
  by (simp add: set_property_def)

lemma dom_assign: "dom (assign schema es) = dom schema \<union> (fst ` set es - {''__proto__''})"
proof (induction schema es rule: assign.induct)
  case (1 schema)
  then show ?case by simp
next
  case (2 schema key val rest)
  have "dom (assign schema ((key, val) # rest)) =
        dom (set_property schema key val) \<union> (fst ` set rest - {''__proto__''})"
    using 2 by simp
  then show ?case unfolding dom_set_property by auto
qed

lemma assign_other: "key \<notin> fst ` set es \<Longrightarrow> assign schema es key = schema key"
  by (induction schema es rule: assign.induct) (auto simp: set_property_def)

lemma dom_assign_concat:
  "dom (assign Map.empty (concat (map f entries))) =
     (\<Union>entry \<in> set entries. fst ` set (f entry)) - {''__proto__''}"
  by (auto simp: dom_assign)

lemma dom_overlay:
  "dom (overlay base schema) = (case base of None \<Rightarrow> {} | Some cached \<Rightarrow> dom cached) \<union> dom schema"
  by (cases base) (auto simp: overlay_def)

lemma token_entries_cases:
  obtains (skipped) "token_entries this (token, colorValue) = []"
  | (plain) c where "token_entries this (token, colorValue) =
                       [(formatToken this token, colorSerializer this c token)]"
  | (scoped) c where "token_entries this (token, colorValue) =
                        (formatToken this token, colorSerializer this c token)
                          # variant_entries this token c"
  by (cases "dye this colorValue"; cases "token \<in> tokens this \<and> truthy colorValue";
      cases "isColorScopedToken this token") (simp_all add: token_entries_def)

lemma token_entries_unregistered:
  "token \<notin> tokens this \<Longrightarrow> token_entries this (token, colorValue) = []"
  by (simp add: token_entries_def)

lemma token_warnings_unregistered:
  "token \<notin> tokens this \<Longrightarrow>
   token_warnings this (token, colorValue) =
     [(Warn, ''Token '' @ token @ '' is not in the registry. Skipping...'')]"
  by (simp add: token_warnings_def)

lemma token_entries_processed:
  assumes "token \<in> tokens this" and "truthy colorValue" and "dye this colorValue = Some c"
  shows "token_entries this (token, colorValue) =
           (formatToken this token, colorSerializer this c token) #
           (if isColorScopedToken this token then
              map (\<lambda>(variantKey, transformer).
                     (formatVariantKey this token variantKey,
                      colorSerializer this (transformer c variantKey) variantKey))
                (filter (\<lambda>(variantKey, transformer). source_isValid this (transformer c variantKey))
                   (own_property_order (variants this)))
            else [])"
  using assms by (simp add: token_entries_def variant_entries_def)

lemma token_warnings_processed:
  assumes "token \<in> tokens this" and "truthy colorValue" and "dye this colorValue = Some c"
  shows "token_warnings this (token, colorValue) =
           (if isColorScopedToken this token then
              map (\<lambda>(variantKey, transformer). (Warn, invalid_variant_message variantKey token))
                (filter (\<lambda>(variantKey, transformer).
                           \<not> source_isValid this (transformer c variantKey))
                   (own_property_order (variants this)))
            else [])"
  using assms by (simp add: token_warnings_def variant_warnings_def)

lemma variant_entries_keys:
  "fst ` set (variant_entries this token c) \<subseteq>
     (\<lambda>variantKey. formatVariantKey this token variantKey) ` fst ` set (variants this)"
  by (force simp: variant_entries_def)

lemma token_entries_keys:
  "fst ` set (token_entries this (token, colorValue)) \<subseteq> derived_keys this [token]"
proof (cases rule: token_entries_cases[of this token colorValue])
  case skipped
  then show ?thesis by simp
next
  case (plain c)
  then show ?thesis by (simp add: derived_keys_def)
next
  case (scoped c)
  then show ?thesis using variant_entries_keys[of this token c]
    by (auto simp: derived_keys_def)
qed

lemma schema_entries_keys:
  "fst ` set (schema_entries this entries) \<subseteq> derived_keys this (map fst entries)"
proof (induction entries)
  case Nil
  then show ?case by (simp add: schema_entries_def)
next
  case (Cons entry entries)
  obtain token colorValue where e: "entry = (token, colorValue)" by (cases entry)
  have split: "derived_keys this (map fst (entry # entries)) =
               derived_keys this [token] \<union> derived_keys this (map fst entries)"
    by (simp add: e derived_keys_def)
  have "fst ` set (schema_entries this (entry # entries)) =
        fst ` set (token_entries this (token, colorValue)) \<union> fst ` set (schema_entries this entries)"
    by (simp add: schema_entries_def e image_Un)
  also have "\<dots> \<subseteq> derived_keys this [token] \<union> derived_keys this (map fst entries)"
    using token_entries_keys[of this token colorValue] Cons.IH by blast
  finally show ?case unfolding split .
qed

lemma schema_entries_filter:
  assumes "\<And>entry. entry \<in> set entries \<Longrightarrow> \<not> keep entry \<Longrightarrow> token_entries this entry = []"
  shows "schema_entries this (filter keep entries) = schema_entries this entries"
  using assms by (induction entries) (auto simp: schema_entries_def)

lemma schema_entries_registered_keys:
  "fst ` set (schema_entries this entries)
     \<subseteq> derived_keys this (filter (\<lambda>token. token \<in> tokens this) (map fst entries))"
proof -
  let ?keep = "\<lambda>entry. fst entry \<in> tokens this"
  have "schema_entries this (filter ?keep entries) = schema_entries this entries"
    by (rule schema_entries_filter) (auto simp: token_entries_unregistered)
  moreover have "map fst (filter ?keep entries) = filter (\<lambda>token. token \<in> tokens this) (map fst entries)"
    by (simp add: filter_map comp_def)
  ultimately show ?thesis using schema_entries_keys[of this "filter ?keep entries"] by simp
qed

lemma build_warnings_unregistered:
  assumes "(token, colorValue) \<in> set entries" and "token \<notin> tokens this"
  shows "(Warn, ''Token '' @ token @ '' is not in the registry. Skipping...'')
           \<in> set (build_warnings this entries)"
proof -
  have "(Warn, ''Token '' @ token @ '' is not in the registry. Skipping...'')
          \<in> set (token_warnings this (token, colorValue))"
    using assms(2) by (simp add: token_warnings_unregistered)
  with assms(1) show ?thesis
    unfolding build_warnings_def set_concat by force
qed

lemma derived_keys_order:
  "derived_keys this (map fst (own_property_order props)) = derived_keys this (map fst props)"
  by (simp add: derived_keys_def)

lemma fresh_keys:
  "dom (assign Map.empty (schema_entries this (own_property_order overrides)))
     \<subseteq> derived_keys this (map fst overrides)"
  using schema_entries_keys[of this "own_property_order overrides"]
  by (auto simp: dom_assign derived_keys_order)

lemma fresh_other:
  "key \<notin> derived_keys this (map fst overrides) \<Longrightarrow>
   assign Map.empty (schema_entries this (own_property_order overrides)) key = None"
  using fresh_keys[of this overrides] by (auto simp: dom_def)

section \<open>Fields that a build does not read\<close>

lemma format_config [simp]:
  "formatToken (this\<lparr>baseColorSchema := b\<rparr>) = formatToken this"
  "formatToken (this\<lparr>logger := lg\<rparr>) = formatToken this"
  "formatToken (this\<lparr>colors := cs\<rparr>) = formatToken this"
  "formatVariantKey (this\<lparr>baseColorSchema := b\<rparr>) = formatVariantKey this"
  "formatVariantKey (this\<lparr>logger := lg\<rparr>) = formatVariantKey this"
  "formatVariantKey (this\<lparr>colors := cs\<rparr>) = formatVariantKey this"
  "isColorScopedToken (this\<lparr>baseColorSchema := b\<rparr>) = isColorScopedToken this"
  "isColorScopedToken (this\<lparr>logger := lg\<rparr>) = isColorScopedToken this"
  "isColorScopedToken (this\<lparr>colors := cs\<rparr>) = isColorScopedToken this"
  by (intro ext, simp add: formatToken_def formatVariantKey_def isColorScopedToken_def)+

lemma variant_entries_config [simp]:
  "variant_entries (this\<lparr>baseColorSchema := b\<rparr>) = variant_entries this"
  "variant_entries (this\<lparr>logger := lg\<rparr>) = variant_entries this"
  "variant_entries (this\<lparr>colors := cs\<rparr>) = variant_entries this"
  "variant_warnings (this\<lparr>baseColorSchema := b\<rparr>) = variant_warnings this"
  "variant_warnings (this\<lparr>logger := lg\<rparr>) = variant_warnings this"
  "variant_warnings (this\<lparr>colors := cs\<rparr>) = variant_warnings this"
  by (intro ext, simp add: variant_entries_def variant_warnings_def)+

lemma token_entries_config:
  "token_entries (this\<lparr>baseColorSchema := b\<rparr>) = token_entries this"
  "token_entries (this\<lparr>logger := lg\<rparr>) = token_entries this"
  "token_entries (this\<lparr>colors := cs\<rparr>) = token_entries this"
  by (intro ext, simp add: token_entries_def split: prod.splits option.splits)+

lemma token_warnings_config:
  "token_warnings (this\<lparr>baseColorSchema := b\<rparr>) = token_warnings this"
  "token_warnings (this\<lparr>logger := lg\<rparr>) = token_warnings this"
  "token_warnings (this\<lparr>colors := cs\<rparr>) = token_warnings this"
  by (intro ext, simp add: token_warnings_def split: prod.splits option.splits)+

lemma schema_entries_config [simp]:
  "schema_entries (this\<lparr>baseColorSchema := b\<rparr>) entries = schema_entries this entries"
  "schema_entries (this\<lparr>logger := lg\<rparr>) entries = schema_entries this entries"
  "schema_entries (this\<lparr>colors := cs\<rparr>) entries = schema_entries this entries"
  by (simp_all add: schema_entries_def token_entries_config)

lemma build_warnings_config [simp]:
  "build_warnings (this\<lparr>baseColorSchema := b\<rparr>) entries = build_warnings this entries"
  "build_warnings (this\<lparr>logger := lg\<rparr>) entries = build_warnings this entries"
  "build_warnings (this\<lparr>colors := cs\<rparr>) entries = build_warnings this entries"
  by (simp_all add: build_warnings_def token_warnings_config)

lemma schemaColors_config [simp]:
  "schemaColors (this\<lparr>baseColorSchema := b\<rparr>) colorsArg = schemaColors this colorsArg"
  "schemaColors (this\<lparr>logger := lg\<rparr>) colorsArg = schemaColors this colorsArg"
  by (simp_all add: schemaColors_def)

lemma generateTheme_logger_cases:
  obtains (cached) result where
      "\<And>lg. generateTheme (this\<lparr>logger := lg\<rparr>) colorsArg = (Inr result, this\<lparr>logger := lg\<rparr>)"
  | (built) result ws where
      "\<And>calls. fst (generateTheme (this\<lparr>logger := Sink calls\<rparr>) colorsArg) = Inr result"
      "\<And>calls. logger (snd (generateTheme (this\<lparr>logger := Sink calls\<rparr>) colorsArg))
                 = Sink (calls @ ws)"
      "ws = [] \<Longrightarrow> fst (generateTheme (this\<lparr>logger := Throwing\<rparr>) colorsArg) = Inr result"
      "ws \<noteq> [] \<Longrightarrow> generateTheme (this\<lparr>logger := Throwing\<rparr>) colorsArg =
         (Inl (Error (strict_message (snd (hd ws)))), this\<lparr>logger := Throwing\<rparr>)"
proof (cases "\<not> truthy colorsArg \<and> baseColorSchema this \<noteq> None")
  case True
  then obtain result where "baseColorSchema this = Some result" by auto
  with True have "\<And>lg. generateTheme (this\<lparr>logger := lg\<rparr>) colorsArg =
                        (Inr result, this\<lparr>logger := lg\<rparr>)"
    by (simp add: generateTheme_def)
  then show ?thesis by (rule cached)
next
  case False
  obtain entries where es: "Object_entries (schemaColors this colorsArg) = Inr entries"
    using Object_entries_schemaColors by blast
  let ?ws = "build_warnings this entries"
  let ?result = "overlay (baseColorSchema this) (assign Map.empty (schema_entries this entries))"
  have gen: "\<And>lg. generateTheme (this\<lparr>logger := lg\<rparr>) colorsArg =
                   build_theme (this\<lparr>logger := lg\<rparr>) colorsArg"
    using False by (cases "baseColorSchema this") (simp_all add: generateTheme_def)
  have es': "\<And>lg. Object_entries (schemaColors (this\<lparr>logger := lg\<rparr>) colorsArg) = Inr entries"
    using es by simp
  have sink: "\<And>calls. fst (generateTheme (this\<lparr>logger := Sink calls\<rparr>) colorsArg) = Inr ?result"
    by (simp add: gen build_theme_refine[OF es'] log_all_Sink)
  have sink_log: "\<And>calls. logger (snd (generateTheme (this\<lparr>logger := Sink calls\<rparr>) colorsArg))
                          = Sink (calls @ ?ws)"
    by (simp add: gen build_theme_refine[OF es'] log_all_Sink)
  have quiet: "?ws = [] \<Longrightarrow>
               fst (generateTheme (this\<lparr>logger := Throwing\<rparr>) colorsArg) = Inr ?result"
    by (simp add: gen build_theme_refine[OF es'] log_all_Throwing)
  have loud: "?ws \<noteq> [] \<Longrightarrow> generateTheme (this\<lparr>logger := Throwing\<rparr>) colorsArg =
         (Inl (Error (strict_message (snd (hd ?ws)))), this\<lparr>logger := Throwing\<rparr>)"
    by (simp add: gen build_theme_refine[OF es'] log_all_Throwing)
  from sink sink_log quiet loud show ?thesis by (rule built)
qed

section \<open>What stays fixed in the life of an instance\<close>

lemma generateTheme_shape:
  "\<exists>lg b. snd (generateTheme this colorsArg) = this\<lparr>logger := lg, baseColorSchema := b\<rparr> \<and>
          (logger this = Throwing \<longrightarrow> lg = Throwing) \<and>
          (\<forall>calls. logger this = Sink calls \<longrightarrow> (\<exists>ws. lg = Sink (calls @ ws)))"
proof -
  obtain entries where es: "Object_entries (schemaColors this colorsArg) = Inr entries"
    using Object_entries_schemaColors by blast
  have same: "this = this\<lparr>logger := logger this, baseColorSchema := baseColorSchema this\<rparr>"
    by simp
  have unchanged: "snd (generateTheme this colorsArg) = this \<Longrightarrow> ?thesis"
  proof -
    assume "snd (generateTheme this colorsArg) = this"
    then have "snd (generateTheme this colorsArg) =
               this\<lparr>logger := logger this, baseColorSchema := baseColorSchema this\<rparr>"
      by simp
    moreover have "\<forall>calls. logger this = Sink calls \<longrightarrow> (\<exists>ws. logger this = Sink (calls @ ws))"
      by auto
    ultimately show ?thesis by blast
  qed
  show ?thesis
  proof (cases "\<not> truthy colorsArg \<and> baseColorSchema this \<noteq> None")
    case True
    then have "snd (generateTheme this colorsArg) = this"
      by (auto simp: generateTheme_def)
    then show ?thesis by (rule unchanged)
  next
    case False
    then have gen: "generateTheme this colorsArg = build_theme this colorsArg"
      by (auto simp: generateTheme_build)
    show ?thesis
    proof (cases "logger this")
      case (Sink calls)
      let ?lg = "Sink (calls @ build_warnings this entries)"
      have "\<exists>b. snd (generateTheme this colorsArg) = this\<lparr>logger := ?lg, baseColorSchema := b\<rparr>"
      proof (cases "\<not> truthy colorsArg \<and> baseColorSchema this = None")
        case True
        then have "snd (generateTheme this colorsArg) =
                   this\<lparr>logger := ?lg,
                        baseColorSchema :=
                          Some (overlay (baseColorSchema this)
                                  (assign Map.empty (schema_entries this entries)))\<rparr>"
          by (simp add: gen build_theme_refine[OF es] Sink log_all_Sink)
        then show ?thesis by blast
      next
        case False
        then have "snd (generateTheme this colorsArg) =
                   this\<lparr>logger := ?lg, baseColorSchema := baseColorSchema this\<rparr>"
          by (simp add: gen build_theme_refine[OF es] Sink log_all_Sink)
        then show ?thesis by blast
      qed
      then show ?thesis using Sink by auto
    next
      case Throwing
      show ?thesis
      proof (cases "build_warnings this entries = []")
        case True
        have "\<exists>b. snd (generateTheme this colorsArg) =
                  this\<lparr>logger := Throwing, baseColorSchema := b\<rparr>"
        proof (cases "\<not> truthy colorsArg \<and> baseColorSchema this = None")
          case True
          then have "snd (generateTheme this colorsArg) =
                     this\<lparr>logger := Throwing,
                          baseColorSchema :=
                            Some (overlay (baseColorSchema this)
                                    (assign Map.empty (schema_entries this entries)))\<rparr>"
            using \<open>build_warnings this entries = []\<close>
            by (simp add: gen build_theme_refine[OF es] Throwing log_all_Throwing)
          then show ?thesis by blast
        next
          case False
          then have "snd (generateTheme this colorsArg) =
                     this\<lparr>logger := Throwing, baseColorSchema := baseColorSchema this\<rparr>"
            using \<open>build_warnings this entries = []\<close>
            by (simp add: gen build_theme_refine[OF es] Throwing log_all_Throwing)
          then show ?thesis by blast
        qed
        then show ?thesis using Throwing by auto
      next
        case False
        then have "snd (generateTheme this colorsArg) = this"
          by (simp add: gen build_theme_refine[OF es] Throwing log_all_Throwing)
        then show ?thesis by (rule unchanged)
      qed
    qed
  qed
qed

lemma generateTheme_keeps:
  "tokens (snd (generateTheme this colorsArg)) = tokens this"
  "logger this = Throwing \<Longrightarrow> logger (snd (generateTheme this colorsArg)) = Throwing"
  "logger this = Sink calls \<Longrightarrow> \<exists>calls'. logger (snd (generateTheme this colorsArg)) = Sink calls'"
proof -
  obtain lg b where shape: "snd (generateTheme this colorsArg) = this\<lparr>logger := lg, baseColorSchema := b\<rparr>"
    and thr: "logger this = Throwing \<longrightarrow> lg = Throwing"
    and snk: "\<forall>calls. logger this = Sink calls \<longrightarrow> (\<exists>ws. lg = Sink (calls @ ws))"
    using generateTheme_shape[of this colorsArg] by blast
  show "tokens (snd (generateTheme this colorsArg)) = tokens this"
    by (simp add: shape)
  show "logger this = Throwing \<Longrightarrow> logger (snd (generateTheme this colorsArg)) = Throwing"
    using thr by (simp add: shape)
  show "logger this = Sink calls \<Longrightarrow> \<exists>calls'. logger (snd (generateTheme this colorsArg)) = Sink calls'"
    using snk by (auto simp: shape)
qed

lemma parseFromJson_keeps:
  "tokens (snd (parseFromJson JSON_parse this json)) = tokens this"
  "logger this = Throwing \<Longrightarrow> logger (snd (parseFromJson JSON_parse this json)) = Throwing"
  "logger this = Sink calls \<Longrightarrow>
   \<exists>calls'. logger (snd (parseFromJson JSON_parse this json)) = Sink calls'"
proof -
  have gen: "\<And>lg parsed. tokens (snd (generateTheme (this\<lparr>logger := lg\<rparr>) parsed)) = tokens this"
    by (simp add: generateTheme_keeps(1))
  show "tokens (snd (parseFromJson JSON_parse this json)) = tokens this"
    by (cases "JSON_parse json"; cases "logger this")
       (auto simp: parseFromJson_def gen)
  show "logger this = Throwing \<Longrightarrow> logger (snd (parseFromJson JSON_parse this json)) = Throwing"
    by (cases "JSON_parse json")
       (auto simp: parseFromJson_def generateTheme_keeps(2))
  show "logger this = Sink calls \<Longrightarrow>
        \<exists>calls'. logger (snd (parseFromJson JSON_parse this json)) = Sink calls'"
    by (cases "JSON_parse json")
       (auto simp: parseFromJson_def intro!: generateTheme_keeps(3))
qed

lemma instance_of_invariant:
  assumes "instance_of lib options this"
  shows "tokens this = fst ` set (opt_colors options) \<and>
         (opt_strict options = Some True \<longrightarrow> logger this = Throwing) \<and>
         (opt_strict options \<noteq> Some True \<and> opt_logger options \<noteq> Some Throwing \<longrightarrow>
            (\<exists>calls. logger this = Sink calls))"
  using assms
proof (induction rule: instance_of.induct)
  case constructed
  have "opt_strict options \<noteq> Some True \<and> opt_logger options \<noteq> Some Throwing \<longrightarrow>
        (\<exists>calls. logger (new_ThemeManager lib options) = Sink calls)"
  proof (intro impI)
    assume a: "opt_strict options \<noteq> Some True \<and> opt_logger options \<noteq> Some Throwing"
    then have "(case opt_strict options of None \<Rightarrow> False | Some b \<Rightarrow> b) = False"
      by (cases "opt_strict options") auto
    moreover have "\<exists>calls. (case opt_logger options of None \<Rightarrow> Sink [] | Some lg \<Rightarrow> lg) = Sink calls"
      using a by (cases "opt_logger options"; simp) (metis Logger.exhaust)
    ultimately show "\<exists>calls. logger (new_ThemeManager lib options) = Sink calls"
      by (simp add: new_ThemeManager_def createLogger_def)
  qed
  then show ?case by (simp add: new_ThemeManager_def createLogger_def)
next
  case (generated this colorsArg)
  then show ?case using generateTheme_keeps by metis
next
  case (parsed this JSON_parse json)
  then show ?case using parseFromJson_keeps by metis
next
  case (colors_mutated this cs)
  then show ?case by simp
next
  case (variants_mutated this vs)
  then show ?case by simp
next
  case (scope_mutated this sc)
  then show ?case by simp
qed

section \<open>Scoped tokens and plain dividers\<close>

lemma endsWith_iff: "endsWith str searchString \<longleftrightarrow> (\<exists>stem. str = stem @ searchString)"
proof
  assume "endsWith str searchString"
  then have "str = take (length str - length searchString) str @ searchString"
    by (metis append_take_drop_id endsWith_def)
  then show "\<exists>stem. str = stem @ searchString" ..
next
  assume "\<exists>stem. str = stem @ searchString"
  then show "endsWith str searchString" by (auto simp: endsWith_def)
qed

lemma isColorScopedToken_iff:
  "isColorScopedToken this token \<longleftrightarrow>
     (\<exists>scope. scope \<in> set (colorScope this) \<and> (\<exists>stem. token = stem @ ''.'' @ scope))"
  by (simp add: isColorScopedToken_def list_ex_iff endsWith_iff del: append.simps) blast

lemma GetSubstitution_plain:
  "CHR ''$'' \<notin> set replacement \<Longrightarrow>
   GetSubstitution matched preceding following replacement = replacement"
  by (induction matched preceding following replacement rule: GetSubstitution.induct) auto

lemma replace_dots_from_plain:
  "CHR ''$'' \<notin> set replacement \<Longrightarrow>
   replace_dots_from preceding str replacement =
     concat (map (\<lambda>c. if c = CHR ''.'' then replacement else [c]) str)"
  by (induction str arbitrary: preceding) (simp_all add: GetSubstitution_plain)

text \<open>
  With a divider that holds no dollar sign, the base key is the prefix followed by the
  token with every dot replaced by the divider, and a variant key is the base key
  followed by the divider and the name of the variant.
\<close>

lemma formatToken_plain:
  "CHR ''$'' \<notin> set (divider this) \<Longrightarrow>
   formatToken this token =
     prefix this @ concat (map (\<lambda>c. if c = CHR ''.'' then divider this else [c]) token)"
  by (simp add: formatToken_def replace_dots_def replace_dots_from_plain)

lemma formatVariantKey_formatToken:
  "formatVariantKey this token variantKey = formatToken this token @ divider this @ variantKey"
  by (simp add: formatVariantKey_def formatToken_def)

section \<open>The examples, run\<close>

lemmas run_defs =
  set_property_def appendVariants_def own_property_order_def is_array_index_def is_digit_def
  array_index_value_def digit_value_def generateTheme_def build_theme_def schemaColors_def process_token_def formatToken_def
  formatVariantKey_def replace_dots_def isColorScopedToken_def endsWith_def
  invalid_variant_message_def new_ThemeManager_def or_string_def createLogger_def
  defaultVariants_def defaultColorSerializer_def strict_message_def

lemmas example_defs = example_theme_def example_options_def sample_lib_def example_schema_def

lemmas suite_defs = suite_theme_def suite_options_def sample_lib_def suite_schema_def

lemmas collision_defs = collision_theme_def collision_options_def sample_lib_def

lemmas numbered_defs =
  numbered_theme_def numbered_strict_theme_def numbered_options_def sample_lib_def

lemmas strict_defs = strict_theme_def strict_options_def example_options_def sample_lib_def

lemma example_theme_fresh: "baseColorSchema example_theme = None"
  by (simp add: run_defs example_defs)

lemma example_theme_nonstrict: "logger example_theme = Sink []"
  by (simp add: run_defs example_defs)

lemma example_run: "fst (generateTheme example_theme JUndefined) = Inr example_schema"
  by (simp add: run_defs example_defs)

lemma example_cached_schema: "baseColorSchema example_cached = Some example_schema"
  by (simp add: example_cached_def run_defs example_defs)

lemma example_cached_nonstrict: "logger example_cached = Sink []"
  by (simp add: example_cached_def run_defs example_defs)

lemma example_override_run:
  "fst (generateTheme example_theme (JObj example_override)) = Inr example_override_schema"
  by (simp add: run_defs example_defs example_override_def example_override_schema_def)

lemma example_override_fresh:
  "fst (generateTheme (example_cached\<lparr>baseColorSchema := None\<rparr>) (JObj example_override))
     = Inr example_override_schema"
  by (simp add: example_cached_def run_defs example_defs example_override_def
      example_override_schema_def)

lemma example_bad_override_log:
  "logger (snd (generateTheme (example_theme\<lparr>logger := Sink []\<rparr>) (JObj example_bad_override)))
     = Sink [(Warn, ''Token invalid.token is not in the registry. Skipping...'')]"
  by (simp add: run_defs example_defs example_bad_override_def)

lemma example_strict_message:
  "strict_message ''Token invalid.token is not in the registry. Skipping...''
     = ''[Theme-Manager]: Token invalid.token is not in the registry. ''"
  by (simp add: strict_message_def)

lemma example_invalid_token: "''invalid.token'' \<notin> tokens example_theme"
  by (simp add: run_defs example_defs)

lemma example_mixed_rest:
  "filter (\<lambda>entry. fst entry \<noteq> ''invalid.token'') example_mixed_override = example_override"
  by (simp add: example_mixed_override_def example_override_def)

lemma suite_run: "fst (generateTheme suite_theme JUndefined) = Inr suite_schema"
  by (simp add: run_defs suite_defs)

lemma example_accent_keys:
  "formatToken example_theme ''accent.fg'' = ''--accent-fg'' \<and>
   formatVariantKey example_theme ''accent.fg'' ''lighter'' = ''--accent-fg-lighter''"
  by (simp add: run_defs example_defs)

lemma example_null: "sample_JSON_parse ''null'' = Some JNull"
  by (simp add: sample_JSON_parse_def)

lemma example_json_parsed:
  "sample_JSON_parse example_json = Some (JObj [(''button.bg'', JStr ''#abcdef'')])"
  by (simp add: sample_JSON_parse_def example_json_def)

section \<open>The cached base schema\<close>

text \<open>
  C1. A call of \<^verbatim>\<open>generateTheme()\<close> without argument that returns leaves its result in
  the cache \<^verbatim>\<open>baseColorSchema\<close>, and every later call without argument returns that
  very schema and leaves the instance as it is (so nothing is computed, logged or
  thrown again), whatever the base colour mapping \<^verbatim>\<open>this.colors\<close> has been changed to
  in between.
\<close>

theorem generateTheme_cache_idempotent:
  assumes "generateTheme this JUndefined = (Inr first, this1)"
  shows "baseColorSchema this1 = Some first \<and>
         (\<forall>mutated. generateTheme (this1\<lparr>colors := mutated\<rparr>) JUndefined =
                      (Inr first, this1\<lparr>colors := mutated\<rparr>))"
proof (cases "baseColorSchema this")
  case (Some cached)
  with assms have "first = cached" "this1 = this"
    by (simp_all add: generateTheme_def)
  with Some show ?thesis by (simp add: generateTheme_def)
next
  case None
  obtain entries where es: "Object_entries (schemaColors this JUndefined) = Inr entries"
    using Object_entries_schemaColors by blast
  from assms None have b: "build_theme this JUndefined = (Inr first, this1)"
    by (simp add: generateTheme_def)
  have "baseColorSchema this1 = Some first"
    using b None unfolding build_theme_refine[OF es]
    by (auto split: sum.splits)
  then show ?thesis by (simp add: generateTheme_def)
qed

theorem generateTheme_cache_idempotent_witness:
  "fst (generateTheme example_theme JUndefined) = Inr example_schema \<and>
   fst (generateTheme ((snd (generateTheme example_theme JUndefined))
          \<lparr>colors := [(''button.bg'', JStr ''#ffffff''), (''text.fg'', JStr ''#333333'')]\<rparr>) JUndefined)
     = Inr example_schema"
proof -
  have run: "generateTheme example_theme JUndefined =
             (Inr example_schema, snd (generateTheme example_theme JUndefined))"
    using example_run by (metis prod.collapse)
  from generateTheme_cache_idempotent[OF run] example_run show ?thesis by simp
qed

section \<open>Overrides on top of the cached base schema\<close>

text \<open>
  C2. On an instance whose cache holds the schema \<open>cached\<close>, a call
  \<^verbatim>\<open>generateTheme(overrides)\<close> that returns yields the cached schema overlaid with the
  schema \<open>fresh\<close> that the same call computes from the overrides alone: the keys of
  \<open>fresh\<close> are keys derived from tokens of the overrides and carry the newly computed
  values, every key that is not derived from a token of the overrides keeps its cached
  value, and the cache is the same after the call (only the logger of the instance may
  have recorded calls).
\<close>

theorem generateTheme_override_merge:
  assumes "baseColorSchema this = Some cached"
    and "generateTheme this (JObj overrides) = (Inr result, this')"
  shows "\<exists>fresh. fst (generateTheme (this\<lparr>baseColorSchema := None\<rparr>) (JObj overrides)) = Inr fresh
           \<and> result = cached ++ fresh
           \<and> dom fresh \<subseteq> derived_keys this (map fst overrides)
           \<and> (\<forall>key. key \<notin> derived_keys this (map fst overrides) \<longrightarrow> result key = cached key)
           \<and> baseColorSchema this' = Some cached
           \<and> this' = this\<lparr>logger := logger this'\<rparr>"
proof (cases rule: build_theme_override_cases[of this overrides])
  case (thrown e)
  with assms show ?thesis by (simp add: generateTheme_override)
next
  case (returned lg)
  let ?fresh = "assign Map.empty (schema_entries this (own_property_order overrides))"
  from returned assms have res: "result = cached ++ ?fresh" and st: "this' = this\<lparr>logger := lg\<rparr>"
    by (simp_all add: generateTheme_override overlay_def)
  have "fst (generateTheme (this\<lparr>baseColorSchema := None\<rparr>) (JObj overrides)) = Inr ?fresh"
  proof (cases rule: build_theme_override_cases[of "this\<lparr>baseColorSchema := None\<rparr>" overrides])
    case (thrown e)
    then show ?thesis using returned(1)
      by (simp add: generateTheme_override build_theme_override)
  next
    case (returned lg')
    then show ?thesis by (simp add: generateTheme_override overlay_def)
  qed
  moreover have "\<forall>key. key \<notin> derived_keys this (map fst overrides) \<longrightarrow> result key = cached key"
    using fresh_other[of _ this overrides] by (simp add: res map_add_def)
  ultimately show ?thesis using res st assms(1) fresh_keys[of this overrides] by simp
qed

theorem generateTheme_override_merge_witness:
  "baseColorSchema example_cached = Some example_schema \<and>
   fst (generateTheme example_cached (JObj example_override))
     = Inr (example_schema ++ example_override_schema) \<and>
   baseColorSchema (snd (generateTheme example_cached (JObj example_override)))
     = Some example_schema"
proof -
  obtain result this' where
    run: "generateTheme example_cached (JObj example_override) = (Inr result, this')"
    using generateTheme_Sink_returns[OF example_cached_nonstrict] by blast
  from generateTheme_override_merge[OF example_cached_schema run] example_override_fresh
  have "result = example_schema ++ example_override_schema"
    and "baseColorSchema this' = Some example_schema"
    by auto
  with run example_cached_schema show ?thesis by simp
qed

section \<open>Partial overrides\<close>

text \<open>
  C3, as stated, fails: on a fresh instance (no cached base schema) the override
  \<^verbatim>\<open>{"button.bg": "#000000"}\<close> yields the three keys of \<^verbatim>\<open>button.bg\<close> only; the
  registry token \<^verbatim>\<open>text.fg\<close>, absent from the override, has no entry.
\<close>

theorem override_without_cache_counterexample:
  "baseColorSchema example_theme = None \<and>
   ''text.fg'' \<in> tokens example_theme \<and>
   ''text.fg'' \<notin> fst ` set example_override \<and>
   formatToken example_theme ''text.fg'' = ''--text-fg'' \<and>
   fst (generateTheme example_theme (JObj example_override)) = Inr example_override_schema \<and>
   dom example_override_schema = {''--button-bg'', ''--button-bg-lighter'', ''--button-bg-darker''} \<and>
   example_override_schema ''--text-fg'' = None"
proof -
  have "''text.fg'' \<in> tokens example_theme"
    by (simp add: run_defs example_defs)
  moreover have "''text.fg'' \<notin> fst ` set example_override"
    by (simp add: example_override_def)
  moreover have "formatToken example_theme ''text.fg'' = ''--text-fg''"
    by (simp add: run_defs example_defs)
  moreover have "dom example_override_schema =
                 {''--button-bg'', ''--button-bg-lighter'', ''--button-bg-darker''}"
    by (simp add: example_override_schema_def insert_commute)
  moreover have "example_override_schema ''--text-fg'' = None"
    by (simp add: example_override_schema_def)
  ultimately show ?thesis using example_theme_fresh example_override_run by simp
qed

text \<open>
  The keys of two tokens can coincide. In the registry of \<open>collision_theme\<close> the key of
  the variant \<^verbatim>\<open>lighter\<close> of the token \<^verbatim>\<open>a.bg\<close> is the base key of the token
  \<^verbatim>\<open>a.bg.lighter\<close>. The override \<^verbatim>\<open>{"a.bg": "#333333"}\<close> does not hold the second token,
  and yet it replaces the cached value under the key \<^verbatim>\<open>a.bg.lighter\<close>; on the fresh
  instance the result of the override has a value under that key. So what holds of the
  tokens absent from an override can only be said of the keys that no token of the
  override gives rise to.
\<close>

lemma collision_override_run:
  "''a.bg.lighter'' \<in> tokens collision_theme \<and>
   ''a.bg.lighter'' \<notin> fst ` set collision_override \<and>
   formatToken collision_theme ''a.bg.lighter'' = ''a.bg.lighter'' \<and>
   baseColorSchema collision_cached =
     Some [''a.bg'' \<mapsto> ''#111111'', ''a.bg.darker'' \<mapsto> ''#111111-'',
           ''a.bg.lighter'' \<mapsto> ''#222222''] \<and>
   fst (generateTheme collision_cached (JObj collision_override)) =
     Inr [''a.bg'' \<mapsto> ''#333333'', ''a.bg.lighter'' \<mapsto> ''#333333+'',
          ''a.bg.darker'' \<mapsto> ''#333333-''] \<and>
   fst (generateTheme collision_theme (JObj collision_override)) =
     Inr [''a.bg'' \<mapsto> ''#333333'', ''a.bg.lighter'' \<mapsto> ''#333333+'',
          ''a.bg.darker'' \<mapsto> ''#333333-'']"
proof -
  have "''a.bg.lighter'' \<in> tokens collision_theme"
    by (simp add: run_defs collision_defs)
  moreover have "''a.bg.lighter'' \<notin> fst ` set collision_override"
    by (simp add: collision_override_def)
  moreover have "formatToken collision_theme ''a.bg.lighter'' = ''a.bg.lighter''"
    by (simp add: run_defs collision_defs)
  moreover have "baseColorSchema collision_cached =
     Some [''a.bg'' \<mapsto> ''#111111'', ''a.bg.darker'' \<mapsto> ''#111111-'',
           ''a.bg.lighter'' \<mapsto> ''#222222'']"
    by (simp add: collision_cached_def run_defs collision_defs fun_upd_twist)
  moreover have "fst (generateTheme collision_cached (JObj collision_override)) =
     Inr [''a.bg'' \<mapsto> ''#333333'', ''a.bg.lighter'' \<mapsto> ''#333333+'',
          ''a.bg.darker'' \<mapsto> ''#333333-'']"
    by (simp add: collision_cached_def run_defs collision_defs collision_override_def)
  moreover have "fst (generateTheme collision_theme (JObj collision_override)) =
     Inr [''a.bg'' \<mapsto> ''#333333'', ''a.bg.lighter'' \<mapsto> ''#333333+'',
          ''a.bg.darker'' \<mapsto> ''#333333-'']"
    by (simp add: run_defs collision_defs collision_override_def)
  ultimately show ?thesis by simp
qed

text \<open>
  C3, amended. Let a call \<^verbatim>\<open>generateTheme(overrides)\<close> with an override object return;
  the overrides need not cover the registry. When a cached base schema exists, every
  cached key is in the result and every key that is not derived from a token of the
  overrides keeps its cached value. When no cached base schema exists, every key of the
  result is derived from a token of the overrides. Hence, for a token none of whose
  derived keys is also derived from a token of the overrides, the result holds under
  each of its keys what the cache holds there, and nothing when there is no cache: such
  a token keeps its cached entries, and has no entry on an instance without cache. The
  derived keys of a token are its base key and the keys of its configured variants.
\<close>

theorem generateTheme_partial_override:
  assumes "generateTheme this (JObj overrides) = (Inr result, this')"
  shows "(\<forall>cached. baseColorSchema this = Some cached \<longrightarrow>
            dom cached \<subseteq> dom result \<and>
            (\<forall>key. key \<notin> derived_keys this (map fst overrides) \<longrightarrow> result key = cached key)) \<and>
         (baseColorSchema this = None \<longrightarrow> dom result \<subseteq> derived_keys this (map fst overrides)) \<and>
         (\<forall>token. derived_keys this [token] \<inter> derived_keys this (map fst overrides) = {} \<longrightarrow>
            (\<forall>key \<in> derived_keys this [token].
               result key = (case baseColorSchema this of None \<Rightarrow> None | Some cached \<Rightarrow> cached key)))"
proof (cases rule: build_theme_override_cases[of this overrides])
  case (thrown e)
  with assms show ?thesis by (simp add: generateTheme_override)
next
  case (returned lg)
  let ?fresh = "assign Map.empty (schema_entries this (own_property_order overrides))"
  from returned assms have res: "result = overlay (baseColorSchema this) ?fresh"
    by (simp add: generateTheme_override)
  have other: "\<And>key. key \<notin> derived_keys this (map fst overrides) \<Longrightarrow>
                 result key = (case baseColorSchema this of None \<Rightarrow> None | Some cached \<Rightarrow> cached key)"
    using fresh_other[of _ this overrides]
    by (cases "baseColorSchema this") (simp_all add: res overlay_def map_add_def)
  have tokenwise:
    "\<forall>token. derived_keys this [token] \<inter> derived_keys this (map fst overrides) = {} \<longrightarrow>
       (\<forall>key \<in> derived_keys this [token].
          result key = (case baseColorSchema this of None \<Rightarrow> None | Some cached \<Rightarrow> cached key))"
    using other by blast
  show ?thesis
  proof (cases "baseColorSchema this")
    case None
    have "dom result \<subseteq> derived_keys this (map fst overrides)"
      using fresh_keys[of this overrides] by (simp add: res overlay_def None)
    with tokenwise None show ?thesis by simp
  next
    case (Some cached)
    have "dom cached \<subseteq> dom result" by (simp add: res overlay_def Some)
    moreover have "\<forall>key. key \<notin> derived_keys this (map fst overrides) \<longrightarrow> result key = cached key"
      using other by (simp add: Some)
    ultimately show ?thesis using tokenwise Some by simp
  qed
qed

theorem generateTheme_partial_override_witness:
  "fst (generateTheme example_theme (JObj example_override)) = Inr example_override_schema \<and>
   dom example_override_schema \<subseteq> derived_keys example_theme (map fst example_override) \<and>
   example_override_schema ''--text-fg'' = None \<and>
   (\<exists>result. fst (generateTheme example_cached (JObj example_override)) = Inr result \<and>
      dom example_schema \<subseteq> dom result \<and> result ''--text-fg'' = Some ''#333333'')"
proof -
  have run: "generateTheme example_theme (JObj example_override) =
             (Inr example_override_schema, snd (generateTheme example_theme (JObj example_override)))"
    using example_override_run by (metis prod.collapse)
  note fresh = generateTheme_partial_override[OF run]
  have apart: "derived_keys example_theme [''text.fg'']
                 \<inter> derived_keys example_theme (map fst example_override) = {}"
    by (simp add: derived_keys_def example_override_def run_defs example_defs)
  have key: "''--text-fg'' \<in> derived_keys example_theme [''text.fg'']"
    by (simp add: derived_keys_def run_defs example_defs)
  have a: "dom example_override_schema \<subseteq> derived_keys example_theme (map fst example_override)"
    using fresh[THEN conjunct2, THEN conjunct1] example_theme_fresh by (rule mp)
  have "example_override_schema ''--text-fg'' =
          (case baseColorSchema example_theme of None \<Rightarrow> None | Some cached \<Rightarrow> cached ''--text-fg'')"
    using fresh[THEN conjunct2, THEN conjunct2, rule_format, OF apart key] .
  then have b: "example_override_schema ''--text-fg'' = None"
    by (simp only: example_theme_fresh option.case)
  obtain result this' where
    cached_run: "generateTheme example_cached (JObj example_override) = (Inr result, this')"
    using generateTheme_Sink_returns[OF example_cached_nonstrict] by blast
  note cached = generateTheme_partial_override[OF cached_run, THEN conjunct1, rule_format,
      OF example_cached_schema]
  have same: "derived_keys example_cached = derived_keys example_theme"
    by (intro ext) (simp add: derived_keys_def example_cached_def run_defs example_defs)
  have c: "dom example_schema \<subseteq> dom result"
    using cached by (rule conjunct1)
  have "''--text-fg'' \<notin> derived_keys example_cached (map fst example_override)"
    using apart key unfolding same by blast
  then have "result ''--text-fg'' = example_schema ''--text-fg''"
    using cached[THEN conjunct2, rule_format] by blast
  then have d: "result ''--text-fg'' = Some ''#333333''"
    by (simp add: example_schema_def)
  have "fst (generateTheme example_cached (JObj example_override)) = Inr result"
    by (simp add: cached_run)
  with c d have "\<exists>result. fst (generateTheme example_cached (JObj example_override)) = Inr result \<and>
      dom example_schema \<subseteq> dom result \<and> result ''--text-fg'' = Some ''#333333''"
    by blast
  with example_override_run a b show ?thesis by blast
qed

section \<open>Strict and non-strict builds\<close>

lemma new_ThemeManager_strict:
  "opt_strict options = Some True \<Longrightarrow> logger (new_ThemeManager lib options) = Throwing"
  by (simp add: new_ThemeManager_def createLogger_def)

text \<open>
  C4. An instance constructed with \<^verbatim>\<open>strict: true\<close> holds the throwing logger. Compare
  the same instance with a sink as logger and with the throwing logger, on the same
  call: with the sink the call always returns a schema, and its logger has recorded the
  calls \<open>ws\<close> made during the build; with the throwing logger the call returns the
  same schema when no such call is made, and otherwise throws the error made from the
  first of them and leaves the instance as it was. Whenever \<^verbatim>\<open>generateTheme\<close> throws,
  the instance (its cache included) is unchanged.
\<close>

theorem strict_build_aborts:
  "(opt_strict options = Some True \<longrightarrow> logger (new_ThemeManager lib options) = Throwing) \<and>
   (\<exists>result ws.
      fst (generateTheme (this\<lparr>logger := Sink calls\<rparr>) colorsArg) = Inr result \<and>
      logger (snd (generateTheme (this\<lparr>logger := Sink calls\<rparr>) colorsArg)) = Sink (calls @ ws) \<and>
      (ws = [] \<longrightarrow> fst (generateTheme (this\<lparr>logger := Throwing\<rparr>) colorsArg) = Inr result) \<and>
      (ws \<noteq> [] \<longrightarrow>
         generateTheme (this\<lparr>logger := Throwing\<rparr>) colorsArg =
           (Inl (Error (strict_message (snd (hd ws)))), this\<lparr>logger := Throwing\<rparr>))) \<and>
   (\<forall>e. fst (generateTheme this colorsArg) = Inl e \<longrightarrow> snd (generateTheme this colorsArg) = this)"
proof (intro conjI)
  show "opt_strict options = Some True \<longrightarrow> logger (new_ThemeManager lib options) = Throwing"
    by (simp add: new_ThemeManager_strict)
next
  show "\<forall>e. fst (generateTheme this colorsArg) = Inl e \<longrightarrow> snd (generateTheme this colorsArg) = this"
    using generateTheme_thrown_unchanged by blast
next
  show "\<exists>result ws.
      fst (generateTheme (this\<lparr>logger := Sink calls\<rparr>) colorsArg) = Inr result \<and>
      logger (snd (generateTheme (this\<lparr>logger := Sink calls\<rparr>) colorsArg)) = Sink (calls @ ws) \<and>
      (ws = [] \<longrightarrow> fst (generateTheme (this\<lparr>logger := Throwing\<rparr>) colorsArg) = Inr result) \<and>
      (ws \<noteq> [] \<longrightarrow>
         generateTheme (this\<lparr>logger := Throwing\<rparr>) colorsArg =
           (Inl (Error (strict_message (snd (hd ws)))), this\<lparr>logger := Throwing\<rparr>))"
  proof (cases rule: generateTheme_logger_cases[of this colorsArg])
    case (cached result)
    have "fst (generateTheme (this\<lparr>logger := Sink calls\<rparr>) colorsArg) = Inr result"
      and "logger (snd (generateTheme (this\<lparr>logger := Sink calls\<rparr>) colorsArg)) = Sink (calls @ [])"
      and "fst (generateTheme (this\<lparr>logger := Throwing\<rparr>) colorsArg) = Inr result"
      by (simp_all add: cached)
    then show ?thesis by blast
  next
    case (built result ws)
    then show ?thesis by blast
  qed
qed

theorem strict_build_aborts_witness:
  "logger (new_ThemeManager sample_lib (example_options\<lparr>opt_strict := Some True\<rparr>)) = Throwing \<and>
   logger (snd (generateTheme (example_theme\<lparr>logger := Sink []\<rparr>) (JObj example_bad_override)))
     = Sink [(Warn, ''Token invalid.token is not in the registry. Skipping...'')] \<and>
   generateTheme (example_theme\<lparr>logger := Throwing\<rparr>) (JObj example_bad_override)
     = (Inl (Error ''[Theme-Manager]: Token invalid.token is not in the registry. ''),
        example_theme\<lparr>logger := Throwing\<rparr>)"
proof -
  note inst = strict_build_aborts[of "example_options\<lparr>opt_strict := Some True\<rparr>" sample_lib
      "[]" example_theme "JObj example_bad_override"]
  from inst have strict: "logger (new_ThemeManager sample_lib (example_options\<lparr>opt_strict := Some True\<rparr>)) = Throwing"
    by simp
  from inst obtain ws where
    log: "logger (snd (generateTheme (example_theme\<lparr>logger := Sink []\<rparr>) (JObj example_bad_override)))
            = Sink ([] @ ws)"
    and thrown: "ws \<noteq> [] \<longrightarrow>
         generateTheme (example_theme\<lparr>logger := Throwing\<rparr>) (JObj example_bad_override) =
           (Inl (Error (strict_message (snd (hd ws)))), example_theme\<lparr>logger := Throwing\<rparr>)"
    by blast
  from log example_bad_override_log
  have ws: "ws = [(Warn, ''Token invalid.token is not in the registry. Skipping...'')]" by simp
  with thrown example_strict_message
  have "generateTheme (example_theme\<lparr>logger := Throwing\<rparr>) (JObj example_bad_override)
     = (Inl (Error ''[Theme-Manager]: Token invalid.token is not in the registry. ''),
        example_theme\<lparr>logger := Throwing\<rparr>)"
    by simp
  with strict example_bad_override_log show ?thesis by simp
qed

section \<open>Tokens outside the registry\<close>

text \<open>
  C5. Take an instance that \<^verbatim>\<open>new ThemeManager(options)\<close> has constructed, at any
  moment of its life, and a build on it that walks a colour set holding a token outside
  the registry, which is the set of the keys of the colours given to the constructor.
  If the instance was not constructed with \<^verbatim>\<open>strict: true\<close> (and the logger handed to
  the constructor, if any, is a sink), the call returns; the logger has recorded the
  warning for that token; every key of the result is a cached key or is derived from a
  token of the colour set that is in the registry, so the token contributes no key; and
  for an override object the result is the one of the same call on the object without
  the entry of that token. If the instance was constructed with \<^verbatim>\<open>strict: true\<close>, the
  call throws and leaves the instance as it was.
\<close>

theorem unregistered_token_skipped:
  assumes "instance_of lib options this"
    and "Object_entries (schemaColors this colorsArg) = Inr entries"
    and "truthy colorsArg \<or> baseColorSchema this = None"
    and "(token, colorValue) \<in> set entries"
    and "token \<notin> fst ` set (opt_colors options)"
  shows "(opt_strict options \<noteq> Some True \<and> opt_logger options \<noteq> Some Throwing \<longrightarrow>
           (\<exists>calls result this' ws.
              logger this = Sink calls \<and>
              generateTheme this colorsArg = (Inr result, this') \<and>
              logger this' = Sink (calls @ ws) \<and>
              (Warn, ''Token '' @ token @ '' is not in the registry. Skipping...'') \<in> set ws \<and>
              dom result \<subseteq>
                (case baseColorSchema this of None \<Rightarrow> {} | Some cached \<Rightarrow> dom cached)
                  \<union> derived_keys this
                       (filter (\<lambda>t. t \<in> fst ` set (opt_colors options)) (map fst entries)) \<and>
              (\<forall>overrides. colorsArg = JObj overrides \<longrightarrow>
                 fst (generateTheme this (JObj (filter (\<lambda>entry. fst entry \<noteq> token) overrides)))
                   = Inr result))) \<and>
         (opt_strict options = Some True \<longrightarrow>
            logger this = Throwing \<and> (\<exists>e. generateTheme this colorsArg = (Inl e, this)))"
proof (intro conjI impI)
  note inv = instance_of_invariant[OF assms(1)]
  have registry: "tokens this = fst ` set (opt_colors options)"
    using inv by (rule conjunct1)
  have outside: "token \<notin> tokens this"
    using assms(5) unfolding registry .
  {
    assume "opt_strict options \<noteq> Some True \<and> opt_logger options \<noteq> Some Throwing"
    then obtain calls where sink: "logger this = Sink calls"
      using inv[THEN conjunct2, THEN conjunct2] by blast
    let ?ws = "build_warnings this entries"
    let ?result = "overlay (baseColorSchema this) (assign Map.empty (schema_entries this entries))"
    let ?keep = "\<lambda>entry. fst entry \<noteq> token"
    have run: "generateTheme this colorsArg =
                 (Inr ?result, snd (generateTheme this colorsArg))"
      and log: "logger (snd (generateTheme this colorsArg)) = Sink (calls @ ?ws)"
      by (simp_all add: generateTheme_build[OF assms(3)] build_theme_refine[OF assms(2)] sink
          log_all_Sink)
    have warned: "(Warn, ''Token '' @ token @ '' is not in the registry. Skipping...'') \<in> set ?ws"
      using build_warnings_unregistered[OF assms(4) outside] .
    have keys: "dom ?result \<subseteq>
                  (case baseColorSchema this of None \<Rightarrow> {} | Some cached \<Rightarrow> dom cached)
                    \<union> derived_keys this
                         (filter (\<lambda>t. t \<in> fst ` set (opt_colors options)) (map fst entries))"
      using schema_entries_registered_keys[of this entries] unfolding registry
      by (auto simp: dom_overlay dom_assign)
    have removed: "\<forall>overrides. colorsArg = JObj overrides \<longrightarrow>
                     fst (generateTheme this (JObj (filter ?keep overrides))) = Inr ?result"
    proof (intro allI impI)
      fix overrides
      assume arg: "colorsArg = JObj overrides"
      then have es: "entries = own_property_order overrides"
        using assms(2) by (simp add: schemaColors_def)
      have "schema_entries this (filter ?keep entries) = schema_entries this entries"
        by (rule schema_entries_filter) (auto simp: token_entries_unregistered outside)
      then have same: "schema_entries this (own_property_order (filter ?keep overrides))
                         = schema_entries this entries"
        by (simp only: es filter_own_property_order)
      show "fst (generateTheme this (JObj (filter ?keep overrides))) = Inr ?result"
        by (simp add: generateTheme_override build_theme_override sink log_all_Sink same)
    qed
    from sink run log warned keys removed
    show "\<exists>calls result this' ws.
              logger this = Sink calls \<and>
              generateTheme this colorsArg = (Inr result, this') \<and>
              logger this' = Sink (calls @ ws) \<and>
              (Warn, ''Token '' @ token @ '' is not in the registry. Skipping...'') \<in> set ws \<and>
              dom result \<subseteq>
                (case baseColorSchema this of None \<Rightarrow> {} | Some cached \<Rightarrow> dom cached)
                  \<union> derived_keys this
                       (filter (\<lambda>t. t \<in> fst ` set (opt_colors options)) (map fst entries)) \<and>
              (\<forall>overrides. colorsArg = JObj overrides \<longrightarrow>
                 fst (generateTheme this (JObj (filter (\<lambda>entry. fst entry \<noteq> token) overrides)))
                   = Inr result)"
      by blast
  }
  {
    assume "opt_strict options = Some True"
    then show strict: "logger this = Throwing"
      using inv[THEN conjunct2, THEN conjunct1] by blast
    have "build_warnings this entries \<noteq> []"
      using build_warnings_unregistered[OF assms(4) outside] by auto
    then show "\<exists>e. generateTheme this colorsArg = (Inl e, this)"
      by (simp add: generateTheme_build[OF assms(3)] build_theme_refine[OF assms(2)] strict
          log_all_Throwing)
  }
qed

theorem unregistered_token_skipped_witness:
  "fst (generateTheme example_theme (JObj example_mixed_override)) = Inr example_override_schema \<and>
   logger strict_theme = Throwing \<and>
   (\<exists>e. generateTheme strict_theme (JObj example_mixed_override) = (Inl e, strict_theme))"
proof -
  have entries: "\<And>this. Object_entries (schemaColors this (JObj example_mixed_override))
                          = Inr example_mixed_override"
    by (simp add: schemaColors_def example_mixed_override_def run_defs)
  have build: "\<And>this. truthy (JObj example_mixed_override) \<or> baseColorSchema this = None"
    by simp
  have member: "(''invalid.token'', JStr ''#123123'') \<in> set example_mixed_override"
    by (simp add: example_mixed_override_def)
  have outside: "''invalid.token'' \<notin> fst ` set (opt_colors example_options)"
    and outside': "''invalid.token'' \<notin> fst ` set (opt_colors strict_options)"
    by (simp_all add: strict_options_def example_options_def)
  have plain: "instance_of sample_lib example_options example_theme"
    unfolding example_theme_def by (rule instance_of.constructed)
  have strict: "instance_of sample_lib strict_options strict_theme"
    unfolding strict_theme_def by (rule instance_of.constructed)
  have mode: "opt_strict example_options \<noteq> Some True \<and> opt_logger example_options \<noteq> Some Throwing"
    and mode': "opt_strict strict_options = Some True"
    by (simp_all add: strict_options_def example_options_def)
  note nonstrict_case =
    unregistered_token_skipped[OF plain entries build member outside, THEN conjunct1,
      THEN mp, OF mode]
  then obtain result where
    "fst (generateTheme example_theme (JObj example_mixed_override)) = Inr result"
    and "\<forall>overrides. JObj example_mixed_override = JObj overrides \<longrightarrow>
           fst (generateTheme example_theme
                  (JObj (filter (\<lambda>entry. fst entry \<noteq> ''invalid.token'') overrides)))
             = Inr result"
    by fastforce
  then have nonstrict:
    "fst (generateTheme example_theme (JObj example_mixed_override)) = Inr example_override_schema"
    by (simp add: example_mixed_rest example_override_run)
  note strict_case =
    unregistered_token_skipped[OF strict entries build member outside', THEN conjunct2,
      THEN mp, OF mode']
  with nonstrict show ?thesis by simp
qed

section \<open>Variant keys\<close>

lemma own_property_order_plain:
  "list_all (\<lambda>p. \<not> is_array_index (fst p)) props \<Longrightarrow> own_property_order props = props"
  by (simp add: own_property_order_def list_all_iff)

text \<open>
  C6, as stated, fails on the order of the variants. \<^verbatim>\<open>appendVariants\<close> walks
  \<^verbatim>\<open>Object.keys(variants)\<close>, which lists the names that are array indices first, in
  ascending numeric order, whatever the order of insertion. On the instance constructed
  with \<^verbatim>\<open>variants: { "900": ..., "100": ... }\<close>, the variant \<^verbatim>\<open>900\<close> inserted first and
  both transforms giving an invalid colour, the build takes the variant \<^verbatim>\<open>100\<close> first:
  the logger records the warning for \<^verbatim>\<open>100\<close> before the one for \<^verbatim>\<open>900\<close>, and the same
  instance constructed with \<^verbatim>\<open>strict: true\<close> throws the error that names the variant
  \<^verbatim>\<open>100\<close>.
\<close>

theorem variants_numeric_order_counterexample:
  "map fst (variants numbered_theme) = [''900'', ''100''] \<and>
   logger numbered_theme = Sink [] \<and>
   fst (generateTheme numbered_theme JUndefined) = Inr [''--button-bg'' \<mapsto> ''#3366ff''] \<and>
   logger (snd (generateTheme numbered_theme JUndefined)) =
     Sink [(Warn, ''Variant 100 for token button.bg produced invalid color. Skipping...''),
           (Warn, ''Variant 900 for token button.bg produced invalid color. Skipping...'')] \<and>
   map fst (variants numbered_strict_theme) = [''900'', ''100''] \<and>
   generateTheme numbered_strict_theme JUndefined =
     (Inl (Error ''[Theme-Manager]: Variant 100 for token button.bg produced invalid color. ''),
      numbered_strict_theme)"
proof -
  have "map fst (variants numbered_theme) = [''900'', ''100'']"
    by (simp add: run_defs numbered_defs)
  moreover have "logger numbered_theme = Sink []"
    by (simp add: run_defs numbered_defs)
  moreover have "fst (generateTheme numbered_theme JUndefined) = Inr [''--button-bg'' \<mapsto> ''#3366ff'']"
    by (simp add: run_defs numbered_defs)
  moreover have "logger (snd (generateTheme numbered_theme JUndefined)) =
     Sink [(Warn, ''Variant 100 for token button.bg produced invalid color. Skipping...''),
           (Warn, ''Variant 900 for token button.bg produced invalid color. Skipping...'')]"
    by (simp add: run_defs numbered_defs)
  moreover have "map fst (variants numbered_strict_theme) = [''900'', ''100'']"
    by (simp add: run_defs numbered_defs)
  moreover have "generateTheme numbered_strict_theme JUndefined =
     (Inl (Error ''[Theme-Manager]: Variant 100 for token button.bg produced invalid color. ''),
      numbered_strict_theme)"
  proof -
    have thrown: "fst (generateTheme numbered_strict_theme JUndefined) =
            Inl (Error ''[Theme-Manager]: Variant 100 for token button.bg produced invalid color. '')"
      by (simp add: run_defs numbered_defs)
    then have "snd (generateTheme numbered_strict_theme JUndefined) = numbered_strict_theme"
      by (rule generateTheme_thrown_unchanged)
    with thrown show ?thesis by (simp add: prod_eq_iff)
  qed
  ultimately show ?thesis by simp
qed

text \<open>
  C6, amended. A call of \<^verbatim>\<open>generateTheme\<close> that builds and returns yields the cached
  schema, if any, overlaid with the assignments that \<open>token_entries\<close> lists for the
  entries of the colour set, in their order, and a sink has recorded after it the
  warnings that \<open>token_warnings\<close> lists for them. For a processed token (in the
  registry, with a truthy value, for which \<^verbatim>\<open>dye\<close> gives a colour instance) the
  assignments are the base entry, followed, exactly when the token is scoped, by one
  entry per configured variant whose transform gives a valid colour, and the warnings
  are, exactly when the token is scoped, one per configured variant whose transform
  gives an invalid colour; both take the variants in the order of
  \<^verbatim>\<open>Object.keys(variants)\<close>, which is \<open>own_property_order\<close>: the names that are array
  indices first, in ascending numeric order, then the other names in the order of
  insertion. This is the order of insertion when no name of a variant is an array index.
  For a processed token that is not scoped the assignments are the base entry alone.
  A token is scoped when it ends with a dot followed by one of the configured scope
  suffixes. The keys of the result are the cached keys and the keys of these
  assignments other than \<^verbatim>\<open>__proto__\<close>, for which an assignment creates no property,
  and no others.
\<close>

theorem variant_keys_for_scoped_tokens:
  assumes "generateTheme this colorsArg = (Inr result, this')"
    and "truthy colorsArg \<or> baseColorSchema this = None"
    and "Object_entries (schemaColors this colorsArg) = Inr entries"
  shows "result = overlay (baseColorSchema this)
                    (assign Map.empty (concat (map (token_entries this) entries))) \<and>
         dom result = (case baseColorSchema this of None \<Rightarrow> {} | Some cached \<Rightarrow> dom cached)
                        \<union> ((\<Union>entry \<in> set entries. fst ` set (token_entries this entry))
                             - {''__proto__''}) \<and>
         (\<forall>calls. logger this = Sink calls \<longrightarrow>
            logger this' = Sink (calls @ concat (map (token_warnings this) entries))) \<and>
         (\<forall>token colorValue c.
            token \<in> tokens this \<and> truthy colorValue \<and> dye this colorValue = Some c \<longrightarrow>
            token_entries this (token, colorValue) =
              (formatToken this token, colorSerializer this c token) #
              (if isColorScopedToken this token then
                 map (\<lambda>(variantKey, transformer).
                        (formatVariantKey this token variantKey,
                         colorSerializer this (transformer c variantKey) variantKey))
                   (filter (\<lambda>(variantKey, transformer). source_isValid this (transformer c variantKey))
                      (own_property_order (variants this)))
               else []) \<and>
            token_warnings this (token, colorValue) =
              (if isColorScopedToken this token then
                 map (\<lambda>(variantKey, transformer). (Warn, invalid_variant_message variantKey token))
                   (filter (\<lambda>(variantKey, transformer).
                              \<not> source_isValid this (transformer c variantKey))
                      (own_property_order (variants this)))
               else [])) \<and>
         (list_all (\<lambda>variant. \<not> is_array_index (fst variant)) (variants this) \<longrightarrow>
            own_property_order (variants this) = variants this) \<and>
         (\<forall>token. isColorScopedToken this token \<longleftrightarrow>
            (\<exists>scope. scope \<in> set (colorScope this) \<and> (\<exists>stem. token = stem @ ''.'' @ scope)))"
proof -
  have built: "build_theme this colorsArg = (Inr result, this')"
    using assms(1,2) by (simp add: generateTheme_build)
  have res: "result = overlay (baseColorSchema this)
                    (assign Map.empty (concat (map (token_entries this) entries)))"
    using built
    by (cases "log_all (logger this) (build_warnings this entries)")
       (auto simp: build_theme_refine[OF assms(3)] schema_entries_def)
  have keys: "dom result = (case baseColorSchema this of None \<Rightarrow> {} | Some cached \<Rightarrow> dom cached)
                        \<union> ((\<Union>entry \<in> set entries. fst ` set (token_entries this entry))
                             - {''__proto__''})"
    unfolding res dom_overlay dom_assign_concat ..
  have log: "\<forall>calls. logger this = Sink calls \<longrightarrow>
            logger this' = Sink (calls @ concat (map (token_warnings this) entries))"
  proof (intro allI impI)
    fix calls
    assume "logger this = Sink calls"
    then show "logger this' = Sink (calls @ concat (map (token_warnings this) entries))"
      using built
      by (auto simp: build_theme_refine[OF assms(3)] log_all_Sink build_warnings_def
          split: if_splits)
  qed
  have processed: "\<forall>token colorValue c.
            token \<in> tokens this \<and> truthy colorValue \<and> dye this colorValue = Some c \<longrightarrow>
            token_entries this (token, colorValue) =
              (formatToken this token, colorSerializer this c token) #
              (if isColorScopedToken this token then
                 map (\<lambda>(variantKey, transformer).
                        (formatVariantKey this token variantKey,
                         colorSerializer this (transformer c variantKey) variantKey))
                   (filter (\<lambda>(variantKey, transformer). source_isValid this (transformer c variantKey))
                      (own_property_order (variants this)))
               else []) \<and>
            token_warnings this (token, colorValue) =
              (if isColorScopedToken this token then
                 map (\<lambda>(variantKey, transformer). (Warn, invalid_variant_message variantKey token))
                   (filter (\<lambda>(variantKey, transformer).
                              \<not> source_isValid this (transformer c variantKey))
                      (own_property_order (variants this)))
               else [])"
    using token_entries_processed[of _ this] token_warnings_processed[of _ this] by blast
  have plain: "list_all (\<lambda>variant. \<not> is_array_index (fst variant)) (variants this) \<longrightarrow>
            own_property_order (variants this) = variants this"
    using own_property_order_plain by blast
  from res keys log processed plain show ?thesis
    using isColorScopedToken_iff[of this] by blast
qed

theorem variant_keys_for_scoped_tokens_witness:
  "fst (generateTheme suite_theme JUndefined) = Inr suite_schema \<and>
   token_entries suite_theme (''button.shadow'', JStr ''#99aabb'')
     = [(''--button-shadow'', ''#99aabb'')] \<and>
   token_entries suite_theme (''text.fg'', JStr ''#333333'')
     = [(''--text-fg'', ''#333333''), (''--text-fg-lighter'', ''#333333+''),
        (''--text-fg-darker'', ''#333333-'')]"
proof -
  have run: "generateTheme suite_theme JUndefined =
             (Inr suite_schema, snd (generateTheme suite_theme JUndefined))"
    using suite_run by (metis prod.collapse)
  have build: "truthy JUndefined \<or> baseColorSchema suite_theme = None"
    by (simp add: run_defs suite_defs)
  have entries: "Object_entries (schemaColors suite_theme JUndefined)
                   = Inr (own_property_order (colors suite_theme))"
    by (simp add: schemaColors_def)
  note inst = variant_keys_for_scoped_tokens[OF run build entries, THEN conjunct2, THEN conjunct2,
      THEN conjunct2, THEN conjunct1, rule_format, THEN conjunct1]
  have shadow: "''button.shadow'' \<in> tokens suite_theme \<and> truthy (JStr ''#99aabb'') \<and>
                dye suite_theme (JStr ''#99aabb'') = Some (True, ''#99aabb'')"
    by (simp add: run_defs suite_defs)
  have fg: "''text.fg'' \<in> tokens suite_theme \<and> truthy (JStr ''#333333'') \<and>
            dye suite_theme (JStr ''#333333'') = Some (True, ''#333333'')"
    by (simp add: run_defs suite_defs)
  have a: "token_entries suite_theme (''button.shadow'', JStr ''#99aabb'')
                  = [(''--button-shadow'', ''#99aabb'')]"
    unfolding inst[OF shadow] by (simp add: run_defs suite_defs)
  have b: "token_entries suite_theme (''text.fg'', JStr ''#333333'')
     = [(''--text-fg'', ''#333333''), (''--text-fg-lighter'', ''#333333+''),
        (''--text-fg-darker'', ''#333333-'')]"
    unfolding inst[OF fg] by (simp add: run_defs suite_defs)
  from suite_run a b show ?thesis by simp
qed

section \<open>Formatting of the keys\<close>

text \<open>
  C7 fails on the code for a divider that holds a replacement pattern. With prefix
  \<^verbatim>\<open>--\<close> and divider \<^verbatim>\<open>$$\<close>, the token \<^verbatim>\<open>accent.fg\<close> gets the base key
  \<^verbatim>\<open>--accent$fg\<close>, not \<^verbatim>\<open>--accent$$fg\<close>: \<^verbatim>\<open>token.replace(/\./g, this.divider)\<close> expands
  \<^verbatim>\<open>$$\<close> to one dollar sign, while the variant key appends the divider as it is. The
  first line below is the key that C7 states, the following ones are what the code computes.
\<close>

theorem dollar_divider_keys:
  "prefix dollar_theme = ''--'' \<and> divider dollar_theme = ''$$'' \<and>
   prefix dollar_theme @ concat (map (\<lambda>c. if c = CHR ''.'' then divider dollar_theme else [c]) ''accent.fg'')
     = ''--accent$$fg'' \<and>
   formatToken dollar_theme ''accent.fg'' = ''--accent$fg'' \<and>
   formatVariantKey dollar_theme ''accent.fg'' ''lighter'' = ''--accent$fg$$lighter'' \<and>
   fst (generateTheme dollar_theme JUndefined) =
     Inr [''--accent$fg'' \<mapsto> ''#FF5733'', ''--accent$fg$$lighter'' \<mapsto> ''#FF5733+'',
          ''--accent$fg$$darker'' \<mapsto> ''#FF5733-'']"
  by (simp add: run_defs dollar_theme_def dollar_options_def sample_lib_def)

section \<open>The end-to-end example\<close>

text \<open>
  C8. With the colours \<^verbatim>\<open>{"button.bg": "#3366ff", "text.fg": "#333333"}\<close>, the scope
  \<^verbatim>\<open>["bg", "fg"]\<close>, the default variants, prefix \<^verbatim>\<open>--\<close> and divider \<^verbatim>\<open>-\<close>, and with
  a colour library that parses the two colours and lightens and darkens them to valid
  colours, the first call \<^verbatim>\<open>generateTheme()\<close> returns a schema whose keys are exactly
  the six keys listed, whatever the logger, the strictness and the serializer are.
\<close>

theorem example_six_keys:
  assumes "opt_colors options = [(''button.bg'', JStr ''#3366ff''), (''text.fg'', JStr ''#333333'')]"
    and "opt_scope options = Some [''bg'', ''fg'']"
    and "opt_variants options = None"
    and "opt_prefix options = Some ''--''"
    and "opt_divider options = Some ''-''"
    and "dye lib (JStr ''#3366ff'') = Some c1"
    and "dye lib (JStr ''#333333'') = Some c2"
    and "source_isValid lib (lighten lib c1 0.12)"
    and "source_isValid lib (darken lib c1 0.12)"
    and "source_isValid lib (lighten lib c2 0.12)"
    and "source_isValid lib (darken lib c2 0.12)"
  shows "\<exists>result.
           fst (generateTheme (new_ThemeManager lib options) JUndefined) = Inr result \<and>
           dom result = {''--button-bg'', ''--button-bg-lighter'', ''--button-bg-darker'',
                         ''--text-fg'', ''--text-fg-lighter'', ''--text-fg-darker''}"
proof -
  let ?tm = "new_ThemeManager lib options"
  let ?entries = "[(''button.bg'', JStr ''#3366ff''), (''text.fg'', JStr ''#333333'')]"
  have es: "Object_entries (schemaColors ?tm JUndefined) = Inr ?entries"
    by (simp add: schemaColors_def new_ThemeManager_def assms own_property_order_def
        is_array_index_def is_digit_def)
  have fresh: "baseColorSchema ?tm = None"
    by (simp add: new_ThemeManager_def)
  have tok: "tokens ?tm = {''button.bg'', ''text.fg''}"
    and conf: "dye ?tm = dye lib" "source_isValid ?tm = source_isValid lib"
      "prefix ?tm = ''--''" "divider ?tm = ''-''" "colorScope ?tm = [''bg'', ''fg'']"
      "variants ?tm = defaultVariants lib"
    by (simp_all add: new_ThemeManager_def or_string_def assms)
  have order: "own_property_order (defaultVariants lib) = defaultVariants lib"
    by (simp add: defaultVariants_def own_property_order_def is_array_index_def is_digit_def)
  have ws: "build_warnings ?tm ?entries = []"
    using assms(8-11)
    by (simp add: build_warnings_def token_warnings_def variant_warnings_def order
        isColorScopedToken_def endsWith_def tok conf assms(1-7))
       (simp add: defaultVariants_def)
  have "map fst (schema_entries ?tm ?entries) =
          [''--button-bg'', ''--button-bg-lighter'', ''--button-bg-darker'',
           ''--text-fg'', ''--text-fg-lighter'', ''--text-fg-darker'']"
    using assms(8-11)
    by (simp add: schema_entries_def token_entries_def variant_entries_def order
        isColorScopedToken_def endsWith_def formatToken_def
        formatVariantKey_def replace_dots_def tok conf assms(1-7))
       (simp add: defaultVariants_def)
  then have "set (map fst (schema_entries ?tm ?entries)) =
          set [''--button-bg'', ''--button-bg-lighter'', ''--button-bg-darker'',
               ''--text-fg'', ''--text-fg-lighter'', ''--text-fg-darker'']"
    by (rule arg_cong)
  then have keys: "fst ` set (schema_entries ?tm ?entries) =
              {''--button-bg'', ''--button-bg-lighter'', ''--button-bg-darker'',
               ''--text-fg'', ''--text-fg-lighter'', ''--text-fg-darker''}"
    by simp
  have "fst (generateTheme ?tm JUndefined) =
          Inr (assign Map.empty (schema_entries ?tm ?entries))"
    by (simp add: generateTheme_def fresh build_theme_refine[OF es] ws overlay_def)
  then show ?thesis using keys by (simp add: dom_assign)
qed

theorem example_six_keys_witness:
  "fst (generateTheme example_theme JUndefined) = Inr example_schema \<and>
   dom example_schema = {''--button-bg'', ''--button-bg-lighter'', ''--button-bg-darker'',
                         ''--text-fg'', ''--text-fg-lighter'', ''--text-fg-darker''}"
proof -
  have opts: "opt_colors example_options =
                [(''button.bg'', JStr ''#3366ff''), (''text.fg'', JStr ''#333333'')]"
    "opt_scope example_options = Some [''bg'', ''fg'']"
    "opt_variants example_options = None"
    "opt_prefix example_options = Some ''--''"
    "opt_divider example_options = Some ''-''"
    by (simp_all add: example_options_def)
  have parsed: "dye sample_lib (JStr ''#3366ff'') = Some (True, ''#3366ff'')"
    "dye sample_lib (JStr ''#333333'') = Some (True, ''#333333'')"
    by (simp_all add: sample_lib_def)
  have valid: "source_isValid sample_lib (lighten sample_lib (True, ''#3366ff'') 0.12)"
    "source_isValid sample_lib (darken sample_lib (True, ''#3366ff'') 0.12)"
    "source_isValid sample_lib (lighten sample_lib (True, ''#333333'') 0.12)"
    "source_isValid sample_lib (darken sample_lib (True, ''#333333'') 0.12)"
    by (simp_all add: sample_lib_def)
  from example_six_keys[OF opts parsed valid] obtain result where
    "fst (generateTheme (new_ThemeManager sample_lib example_options) JUndefined) = Inr result"
    and keys: "dom result = {''--button-bg'', ''--button-bg-lighter'', ''--button-bg-darker'',
                             ''--text-fg'', ''--text-fg-lighter'', ''--text-fg-darker''}"
    by blast
  with example_run have "result = example_schema" by (simp add: example_theme_def)
  with keys example_run show ?thesis by simp
qed

section \<open>Parsing a theme from JSON\<close>

lemma parseFromJson_malformed:
  "JSON_parse json = None \<Longrightarrow> parseFromJson JSON_parse this json = (Inl SyntaxError, this)"
  by (simp add: parseFromJson_def)

text \<open>
  C9 fails on the code: \<^verbatim>\<open>parseFromJson\<close> calls \<^verbatim>\<open>JSON.parse\<close> outside any handler, so
  on the malformed text \<^verbatim>\<open>{\<close> the \<^verbatim>\<open>SyntaxError\<close> reaches the caller; nothing is logged
  and no mapping is returned.
\<close>

theorem parseFromJson_malformed_throws:
  "sample_JSON_parse ''{'' = None \<and>
   logger example_theme = Sink [] \<and>
   parseFromJson sample_JSON_parse example_theme ''{'' = (Inl SyntaxError, example_theme)"
proof -
  have "sample_JSON_parse ''{'' = None"
    by (simp add: sample_JSON_parse_def example_json_def)
  then show ?thesis using example_theme_nonstrict by (simp add: parseFromJson_malformed)
qed

text \<open>
  A text whose parsed value is falsy (\<^verbatim>\<open>null\<close>, \<^verbatim>\<open>false\<close>, \<^verbatim>\<open>0\<close>, the empty string) is
  no mapping: \<^verbatim>\<open>parseFromJson\<close> reports it through \<^verbatim>\<open>logger.error\<close> and, when that
  call returns, returns the empty mapping without a build.
\<close>

lemma parseFromJson_falsy:
  assumes "JSON_parse json = Some parsed" and "\<not> truthy parsed"
  shows "parseFromJson JSON_parse this json =
           (case logger this of
              Sink calls \<Rightarrow>
                (Inr Map.empty,
                 this\<lparr>logger := Sink (calls @ [(Err, ''Invalid JSON format. Unable to parse theme.'')])\<rparr>)
            | Throwing \<Rightarrow>
                (Inl (Error (strict_message ''Invalid JSON format. Unable to parse theme.'')), this))"
  using assms by (cases "logger this") (simp_all add: parseFromJson_def)

text \<open>
  C10. Take an instance that \<^verbatim>\<open>new ThemeManager(options)\<close> has constructed, at a moment
  of its life when it has no cached base schema, and a text that \<^verbatim>\<open>JSON.parse\<close> turns
  into a truthy value \<open>parsed\<close> (every object is truthy). If the instance was not
  constructed with \<^verbatim>\<open>strict: true\<close> (and the logger handed to the constructor, if any,
  is a sink), the logger records the warning that recommends a base schema, and the
  call then does what \<^verbatim>\<open>generateTheme(parsed)\<close> does on the instance with that logger:
  it returns or throws the same and leaves the same instance. If the instance was
  constructed with \<^verbatim>\<open>strict: true\<close>, the call throws the error made from that warning and
  leaves the instance as it was. On such a strict instance every call of
  \<^verbatim>\<open>parseFromJson\<close> throws, whatever the text, and no schema is produced.
\<close>

theorem parseFromJson_without_base:
  assumes "instance_of lib options this"
    and "baseColorSchema this = None"
  shows "(\<forall>parsed. JSON_parse json = Some parsed \<and> truthy parsed \<longrightarrow>
            (opt_strict options \<noteq> Some True \<and> opt_logger options \<noteq> Some Throwing \<longrightarrow>
               (\<exists>calls. logger this = Sink calls \<and>
                  parseFromJson JSON_parse this json =
                    generateTheme (this\<lparr>logger := Sink (calls @ [(Warn, no_base_warning)])\<rparr>) parsed)) \<and>
            (opt_strict options = Some True \<longrightarrow>
               parseFromJson JSON_parse this json =
                 (Inl (Error (strict_message no_base_warning)), this))) \<and>
         (opt_strict options = Some True \<longrightarrow>
            logger this = Throwing \<and> (\<exists>e. parseFromJson JSON_parse this json = (Inl e, this)))"
proof -
  note inv = instance_of_invariant[OF assms(1)]
  have strict: "opt_strict options = Some True \<Longrightarrow> logger this = Throwing"
    using inv[THEN conjunct2, THEN conjunct1] by blast
  have sink: "opt_strict options \<noteq> Some True \<and> opt_logger options \<noteq> Some Throwing \<Longrightarrow>
              \<exists>calls. logger this = Sink calls"
    using inv[THEN conjunct2, THEN conjunct2] by blast
  have delegates: "\<And>parsed calls. JSON_parse json = Some parsed \<Longrightarrow> truthy parsed \<Longrightarrow>
                     logger this = Sink calls \<Longrightarrow>
                     parseFromJson JSON_parse this json =
                       generateTheme (this\<lparr>logger := Sink (calls @ [(Warn, no_base_warning)])\<rparr>) parsed"
    using assms(2) by (simp add: parseFromJson_def)
  have warned: "\<And>parsed. JSON_parse json = Some parsed \<Longrightarrow> truthy parsed \<Longrightarrow>
                  logger this = Throwing \<Longrightarrow>
                  parseFromJson JSON_parse this json =
                    (Inl (Error (strict_message no_base_warning)), this)"
    using assms(2) by (simp add: parseFromJson_def)
  have always: "logger this = Throwing \<Longrightarrow> \<exists>e. parseFromJson JSON_parse this json = (Inl e, this)"
    using assms(2) by (cases "JSON_parse json") (auto simp: parseFromJson_def)
  show ?thesis
  proof (intro conjI allI impI)
    fix parsed
    assume p: "JSON_parse json = Some parsed \<and> truthy parsed"
      and "opt_strict options \<noteq> Some True \<and> opt_logger options \<noteq> Some Throwing"
    then obtain calls where "logger this = Sink calls" using sink by blast
    with p show "\<exists>calls. logger this = Sink calls \<and>
                  parseFromJson JSON_parse this json =
                    generateTheme (this\<lparr>logger := Sink (calls @ [(Warn, no_base_warning)])\<rparr>) parsed"
      using delegates by blast
  next
    fix parsed
    assume "JSON_parse json = Some parsed \<and> truthy parsed" and "opt_strict options = Some True"
    then show "parseFromJson JSON_parse this json =
                 (Inl (Error (strict_message no_base_warning)), this)"
      using warned strict by blast
  next
    assume "opt_strict options = Some True"
    then show "logger this = Throwing" by (rule strict)
  next
    assume "opt_strict options = Some True"
    then show "\<exists>e. parseFromJson JSON_parse this json = (Inl e, this)"
      using always strict by blast
  qed
qed

theorem parseFromJson_without_base_witness:
  "parseFromJson sample_JSON_parse example_theme example_json =
     generateTheme (example_theme\<lparr>logger := Sink [(Warn, no_base_warning)]\<rparr>)
       (JObj [(''button.bg'', JStr ''#abcdef'')]) \<and>
   fst (parseFromJson sample_JSON_parse example_theme example_json) =
     Inr [''--button-bg'' \<mapsto> ''#abcdef'', ''--button-bg-lighter'' \<mapsto> ''#abcdef+'',
          ''--button-bg-darker'' \<mapsto> ''#abcdef-''] \<and>
   logger strict_theme = Throwing \<and>
   parseFromJson sample_JSON_parse strict_theme example_json =
     (Inl (Error (''[Theme-Manager]: '' @ no_base_warning)), strict_theme)"
proof -
  have plain: "instance_of sample_lib example_options example_theme"
    unfolding example_theme_def by (rule instance_of.constructed)
  have strict: "instance_of sample_lib strict_options strict_theme"
    unfolding strict_theme_def by (rule instance_of.constructed)
  have fresh: "baseColorSchema strict_theme = None"
    by (simp add: strict_theme_def new_ThemeManager_def)
  have mode: "opt_strict example_options \<noteq> Some True \<and> opt_logger example_options \<noteq> Some Throwing"
    and mode': "opt_strict strict_options = Some True"
    by (simp_all add: strict_options_def example_options_def)
  have parsed_value: "sample_JSON_parse example_json = Some (JObj [(''button.bg'', JStr ''#abcdef'')]) \<and>
              truthy (JObj [(''button.bg'', JStr ''#abcdef'')])"
    using example_json_parsed by simp
  note nonstrict_case =
    parseFromJson_without_base[where JSON_parse = sample_JSON_parse and json = example_json,
      OF plain example_theme_fresh, THEN conjunct1, rule_format,
      OF parsed_value, THEN conjunct1, THEN mp, OF mode]
  then have a: "parseFromJson sample_JSON_parse example_theme example_json =
     generateTheme (example_theme\<lparr>logger := Sink [(Warn, no_base_warning)]\<rparr>)
       (JObj [(''button.bg'', JStr ''#abcdef'')])"
    using example_theme_nonstrict by auto
  have "fst (generateTheme (example_theme\<lparr>logger := Sink [(Warn, no_base_warning)]\<rparr>)
               (JObj [(''button.bg'', JStr ''#abcdef'')])) =
     Inr [''--button-bg'' \<mapsto> ''#abcdef'', ''--button-bg-lighter'' \<mapsto> ''#abcdef+'',
          ''--button-bg-darker'' \<mapsto> ''#abcdef-'']"
    by (simp add: run_defs example_defs)
  with a have b: "fst (parseFromJson sample_JSON_parse example_theme example_json) =
     Inr [''--button-bg'' \<mapsto> ''#abcdef'', ''--button-bg-lighter'' \<mapsto> ''#abcdef+'',
          ''--button-bg-darker'' \<mapsto> ''#abcdef-'']"
    by simp
  have c: "logger strict_theme = Throwing"
    using parseFromJson_without_base[where JSON_parse = sample_JSON_parse and json = example_json,
        OF strict fresh, THEN conjunct2, THEN mp, OF mode',
        THEN conjunct1] .
  have "parseFromJson sample_JSON_parse strict_theme example_json =
          (Inl (Error (strict_message no_base_warning)), strict_theme)"
    using parseFromJson_without_base[where JSON_parse = sample_JSON_parse and json = example_json,
        OF strict fresh, THEN conjunct1, rule_format, OF parsed_value,
        THEN conjunct2, THEN mp, OF mode'] .
  moreover have "strict_message no_base_warning = ''[Theme-Manager]: '' @ no_base_warning"
    by (simp add: strict_message_def no_base_warning_def)
  ultimately have d: "parseFromJson sample_JSON_parse strict_theme example_json =
     (Inl (Error (''[Theme-Manager]: '' @ no_base_warning)), strict_theme)"
    by simp
  from a b c d show ?thesis by simp
qed

end
